theory Spec2Isabelle
  imports Complex_Main
begin

section \<open>Auto-encoder for k-Means clustering: the notebook's model classes\<close>

text \<open>
  The development follows \<^verbatim>\<open>AutoEncoder_KMeans_MNIST.ipynb\<close>. Tensors are lists of
  rationals (exact arithmetic stands for the float32 arithmetic of the tensor library), a
  batch is a list of rows. Every exception the code can raise is a value of \<open>error\<close>.
  Library calls (\<^verbatim>\<open>torch.nn.Linear\<close>, \<^verbatim>\<open>nn.Dropout\<close>, \<^verbatim>\<open>torch.save\<close>, \<^verbatim>\<open>torch.load\<close>) are
  modelled by their documented contract; randomness is an explicit source.
\<close>

datatype error =
    IndexError
  | AttributeError
  | RuntimeError
  | ValueError
  | FileNotFoundError
  | UnpicklingError
  | TypeError
  | NameError

fun ebind :: "error + 'a \<Rightarrow> ('a \<Rightarrow> error + 'b) \<Rightarrow> error + 'b" where
  "ebind (Inl e) f = Inl e"
| "ebind (Inr v) f = f v"

text \<open>Python list indexing: a negative index counts from the end, out of range raises.\<close>

definition py_index :: "'a list \<Rightarrow> int \<Rightarrow> error + 'a" where
  "py_index xs i =
     (if 0 \<le> i \<and> i < int (length xs) then Inr (xs ! nat i)
      else if i < 0 \<and> - int (length xs) \<le> i then Inr (xs ! nat (int (length xs) + i))
      else Inl IndexError)"

text \<open>\<^verbatim>\<open>range(0, m)\<close>: empty when \<open>m \<le> 0\<close>.\<close>

definition py_range0 :: "int \<Rightarrow> int list" where
  "py_range0 m = map int [0..<nat m]"

subsection \<open>torch.nn.Linear\<close>

text \<open>
  A Linear layer owns a weight matrix (\<open>out_features\<close> rows of \<open>in_features\<close> entries) and a
  bias vector. \<open>param_id\<close> is the identity of the parameter object: every construction
  allocates a fresh one from a counter that is threaded through the constructors. The initial
  values are drawn from an explicit source, indexed by the object, the row and the column
  (column \<open>in_features\<close> holds the bias). The library refuses a negative dimension with a
  RuntimeError and accepts a zero one. Sizes are unbounded integers here and memory is not
  modelled: the installed library also refuses a size beyond its 64-bit range and a layer it
  cannot allocate. What the Encoder constructor does with a refusal is therefore stated for
  an arbitrary library constructor (\<open>Encoder_init_lib\<close> below), of which \<open>Linear_init\<close> is
  one instance.
\<close>

type_synonym init_source = "nat \<Rightarrow> nat \<Rightarrow> nat \<Rightarrow> rat"

record Linear =
  in_features :: int
  out_features :: int
  param_id :: nat
  weight :: "rat list list"
  bias :: "rat list"

definition Linear_init :: "init_source \<Rightarrow> int \<Rightarrow> int \<Rightarrow> nat \<Rightarrow> error + (Linear \<times> nat)" where
  "Linear_init g fin fout n =
     (if fin < 0 \<or> fout < 0 then Inl RuntimeError
      else Inr (\<lparr>in_features = fin, out_features = fout, param_id = n,
                 weight = map (\<lambda>r. map (\<lambda>c. g n r c) [0..<nat fin]) [0..<nat fout],
                 bias = map (\<lambda>r. g n r (nat fin)) [0..<nat fout]\<rparr>, Suc n))"

definition dot :: "rat list \<Rightarrow> rat list \<Rightarrow> rat" where
  "dot a b = sum_list (map (\<lambda>(u, v). u * v) (zip a b))"

text \<open>Applying a layer to a vector whose length is not \<open>in_features\<close> is a shape error.\<close>

definition Linear_forward :: "Linear \<Rightarrow> rat list \<Rightarrow> error + rat list" where
  "Linear_forward l x =
     (if int (length x) \<noteq> in_features l then Inl RuntimeError
      else Inr (map (\<lambda>(row, b). dot row x + b) (zip (weight l) (bias l))))"

subsection \<open>nn.ReLU and nn.Dropout\<close>

type_synonym activation = "rat list \<Rightarrow> rat list"

definition ReLU :: activation where
  "ReLU x = map (\<lambda>v. max 0 v) x"

text \<open>
  A Dropout module holds its probability and the training flag every module carries
  (set at construction, cleared by \<^verbatim>\<open>eval()\<close>). In training mode each entry is kept with
  probability \<open>1 - p\<close> and scaled by \<open>1 / (1 - p)\<close>, otherwise zeroed; in evaluation mode
  the module is the identity and draws nothing. The random source is a sequence of uniform
  samples read at a cursor. The constructor refuses a probability outside \<open>[0, 1]\<close>.
\<close>

type_synonym rand = "nat \<Rightarrow> rat"

record Dropout =
  p :: rat
  training :: bool

definition Dropout_init :: "rat \<Rightarrow> error + Dropout" where
  "Dropout_init q =
     (if q < 0 \<or> 1 < q then Inl ValueError else Inr \<lparr>p = q, training = True\<rparr>)"

definition Dropout_forward :: "Dropout \<Rightarrow> rand \<Rightarrow> rat list \<times> nat \<Rightarrow> rat list \<times> nat" where
  "Dropout_forward d r xk =
     (case xk of (x, k) \<Rightarrow>
        if training d
        then (map (\<lambda>j. if r (k + j) < 1 - p d then (x ! j) / (1 - p d) else 0) [0..<length x],
              k + length x)
        else (x, k))"

subsection \<open>Encoder\<close>

text \<open>
  The attributes \<^verbatim>\<open>dense_0\<close>, \<^verbatim>\<open>dense_1\<close>, ... set by \<^verbatim>\<open>setattr\<close> are the list \<open>enc_dense\<close>;
  \<^verbatim>\<open>getattr(self, f"dense_{i}")\<close> on a name that was never set raises AttributeError.
\<close>

record Encoder =
  enc_input_layer :: Linear
  enc_dense :: "Linear list"
  enc_n_layers :: int
  enc_activation :: activation
  enc_hidden_layers :: "int list"
  enc_dropout :: Dropout
  enc_dropout_rate :: rat
  enc_input_size :: int

definition getattr_dense :: "Linear list \<Rightarrow> int \<Rightarrow> error + Linear" where
  "getattr_dense ds i =
     (if 0 \<le> i \<and> i < int (length ds) then Inr (ds ! nat i) else Inl AttributeError)"

text \<open>
  Both constructors hold the same loop,
  \<^verbatim>\<open>for i in range(...): setattr(self, f"dense_{i}", Linear(h[i], h[i+1]))\<close>,
  the Encoder over \<^verbatim>\<open>range(0, len(hidden_layers) - 1)\<close> and the Decoder over
  \<^verbatim>\<open>range(0, n_layers)\<close> on the reversed widths.
\<close>

fun dense_loop ::
  "init_source \<Rightarrow> int list \<Rightarrow> int list \<Rightarrow> nat \<Rightarrow> error + (Linear list \<times> nat)" where
  "dense_loop g hs [] n = Inr ([], n)"
| "dense_loop g hs (i # is) n =
     ebind (py_index hs i) (\<lambda>a.
     ebind (py_index hs (i + 1)) (\<lambda>b.
     ebind (Linear_init g a b n) (\<lambda>(l, n').
     ebind (dense_loop g hs is n') (\<lambda>(ls, n'').
     Inr (l # ls, n'')))))"

definition Encoder_init ::
  "init_source \<Rightarrow> int \<Rightarrow> int list \<Rightarrow> rat \<Rightarrow> activation \<Rightarrow> nat \<Rightarrow> error + (Encoder \<times> nat)" where
  "Encoder_init g input_size hidden_layers dropout_rate act n =
     ebind (py_index hidden_layers 0) (\<lambda>h0.
     ebind (Linear_init g input_size h0 n) (\<lambda>(inp, n1).
     ebind (dense_loop g hidden_layers
              (py_range0 (int (length hidden_layers) - 1)) n1) (\<lambda>(ds, n2).
     ebind (Dropout_init dropout_rate) (\<lambda>d.
     Inr (\<lparr>enc_input_layer = inp, enc_dense = ds, enc_n_layers = int (length ds),
           enc_activation = act, enc_hidden_layers = hidden_layers,
           enc_dropout = d, enc_dropout_rate = dropout_rate,
           enc_input_size = input_size\<rparr>, n2)))))"

text \<open>
  The same constructor with the library as a parameter: \<open>new_linear\<close> stands for
  \<^verbatim>\<open>torch.nn.Linear\<close> and \<open>new_dropout\<close> for \<^verbatim>\<open>nn.Dropout\<close>, whatever they accept and
  whatever they raise. The body is that of \<open>Encoder_init\<close>, call for call.
\<close>

type_synonym linear_lib = "int \<Rightarrow> int \<Rightarrow> nat \<Rightarrow> error + (Linear \<times> nat)"
type_synonym dropout_lib = "rat \<Rightarrow> error + Dropout"

fun dense_loop_lib ::
  "linear_lib \<Rightarrow> int list \<Rightarrow> int list \<Rightarrow> nat \<Rightarrow> error + (Linear list \<times> nat)" where
  "dense_loop_lib new_linear hs [] n = Inr ([], n)"
| "dense_loop_lib new_linear hs (i # is) n =
     ebind (py_index hs i) (\<lambda>a.
     ebind (py_index hs (i + 1)) (\<lambda>b.
     ebind (new_linear a b n) (\<lambda>(l, n').
     ebind (dense_loop_lib new_linear hs is n') (\<lambda>(ls, n'').
     Inr (l # ls, n'')))))"

definition Encoder_init_lib ::
  "linear_lib \<Rightarrow> dropout_lib \<Rightarrow> int \<Rightarrow> int list \<Rightarrow> rat \<Rightarrow> activation \<Rightarrow> nat
     \<Rightarrow> error + (Encoder \<times> nat)" where
  "Encoder_init_lib new_linear new_dropout input_size hidden_layers dropout_rate act n =
     ebind (py_index hidden_layers 0) (\<lambda>h0.
     ebind (new_linear input_size h0 n) (\<lambda>(inp, n1).
     ebind (dense_loop_lib new_linear hidden_layers
              (py_range0 (int (length hidden_layers) - 1)) n1) (\<lambda>(ds, n2).
     ebind (new_dropout dropout_rate) (\<lambda>d.
     Inr (\<lparr>enc_input_layer = inp, enc_dense = ds, enc_n_layers = int (length ds),
           enc_activation = act, enc_hidden_layers = hidden_layers,
           enc_dropout = d, enc_dropout_rate = dropout_rate,
           enc_input_size = input_size\<rparr>, n2)))))"

text \<open>
  Both forward passes hold the same loop body: \<^verbatim>\<open>dense_i\<close>, then the activation, then
  dropout; the Encoder runs it over \<^verbatim>\<open>range(0, self.n_layers - 1)\<close>, the Decoder over
  \<^verbatim>\<open>range(0, self.n_layers)\<close>.
\<close>

fun forward_loop ::
  "Linear list \<Rightarrow> activation \<Rightarrow> Dropout \<Rightarrow> rand \<Rightarrow> int list \<Rightarrow> rat list \<times> nat
     \<Rightarrow> error + (rat list \<times> nat)" where
  "forward_loop ds act dp r [] xk = Inr xk"
| "forward_loop ds act dp r (i # is) xk =
     ebind (getattr_dense ds i) (\<lambda>dense_i.
     ebind (Linear_forward dense_i (fst xk)) (\<lambda>y.
     forward_loop ds act dp r is (Dropout_forward dp r (act y, snd xk))))"

definition Encoder_forward :: "Encoder \<Rightarrow> rand \<Rightarrow> rat list \<times> nat \<Rightarrow> error + (rat list \<times> nat)" where
  "Encoder_forward e r xk =
     ebind (Linear_forward (enc_input_layer e) (fst xk)) (\<lambda>y.
     ebind (forward_loop (enc_dense e) (enc_activation e) (enc_dropout e) r
              (py_range0 (enc_n_layers e - 1)) (enc_activation e y, snd xk)) (\<lambda>zk.
     ebind (getattr_dense (enc_dense e) (enc_n_layers e - 1)) (\<lambda>output_layer.
     ebind (Linear_forward output_layer (fst zk)) (\<lambda>out.
     Inr (out, snd zk)))))"

subsection \<open>Decoder\<close>

record Decoder =
  dec_hidden_layers :: "int list"
  dec_dense :: "Linear list"
  dec_output_layer :: Linear
  dec_n_layers :: int
  dec_activation :: activation
  dec_dropout :: Dropout

definition Decoder_init ::
  "init_source \<Rightarrow> Encoder \<Rightarrow> activation \<Rightarrow> nat \<Rightarrow> error + (Decoder \<times> nat)" where
  "Decoder_init g encoder act n =
     (let hidden = rev (enc_hidden_layers encoder);
          n_layers = enc_n_layers encoder
      in ebind (dense_loop g hidden (py_range0 n_layers) n) (\<lambda>(ds, n1).
         ebind (py_index hidden (- 1)) (\<lambda>hl.
         ebind (Linear_init g hl (enc_input_size encoder) n1) (\<lambda>(outp, n2).
         ebind (Dropout_init (enc_dropout_rate encoder)) (\<lambda>d.
         Inr (\<lparr>dec_hidden_layers = hidden, dec_dense = ds, dec_output_layer = outp,
               dec_n_layers = n_layers, dec_activation = act, dec_dropout = d\<rparr>, n2))))))"

definition Decoder_forward :: "Decoder \<Rightarrow> rand \<Rightarrow> rat list \<times> nat \<Rightarrow> error + (rat list \<times> nat)" where
  "Decoder_forward d r xk =
     ebind (forward_loop (dec_dense d) (dec_activation d) (dec_dropout d) r
              (py_range0 (dec_n_layers d)) xk) (\<lambda>zk.
     ebind (Linear_forward (dec_output_layer d) (fst zk)) (\<lambda>out.
     Inr (out, snd zk)))"

subsection \<open>AutoEncoder\<close>

record AutoEncoder =
  encoder :: Encoder
  decoder :: Decoder
  ae_hidden_layers :: "int list"

text \<open>
  The constructor takes an activation and does not pass it on: the Encoder and the Decoder are
  built with their own default, \<^verbatim>\<open>nn.ReLU()\<close>.
\<close>

definition AutoEncoder_init ::
  "init_source \<Rightarrow> int \<Rightarrow> int list \<Rightarrow> rat \<Rightarrow> activation \<Rightarrow> nat \<Rightarrow> error + (AutoEncoder \<times> nat)" where
  "AutoEncoder_init g input_size hidden_layers dropout_rate act n =
     ebind (Encoder_init g input_size hidden_layers dropout_rate ReLU n) (\<lambda>(enc, n1).
     ebind (Decoder_init g enc ReLU n1) (\<lambda>(dec, n2).
     Inr (\<lparr>encoder = enc, decoder = dec, ae_hidden_layers = hidden_layers\<rparr>, n2)))"

text \<open>\<open>forward\<close> returns the embedding, the reconstruction and the advanced cursor.\<close>

definition AutoEncoder_forward ::
  "AutoEncoder \<Rightarrow> rand \<Rightarrow> rat list \<times> nat \<Rightarrow> error + ((rat list \<times> rat list) \<times> nat)" where
  "AutoEncoder_forward m r xk =
     ebind (Encoder_forward (encoder m) r xk) (\<lambda>ek.
     ebind (Decoder_forward (decoder m) r ek) (\<lambda>dk.
     Inr ((fst ek, fst dk), snd dk)))"

text \<open>\<^verbatim>\<open>model.train()\<close> and \<^verbatim>\<open>model.eval()\<close> set the flag of every submodule.\<close>

definition set_training :: "bool \<Rightarrow> AutoEncoder \<Rightarrow> AutoEncoder" where
  "set_training b m =
     m\<lparr>encoder := (encoder m)\<lparr>enc_dropout := (enc_dropout (encoder m))\<lparr>training := b\<rparr>\<rparr>,
       decoder := (decoder m)\<lparr>dec_dropout := (dec_dropout (decoder m))\<lparr>training := b\<rparr>\<rparr>\<rparr>"

definition train :: "AutoEncoder \<Rightarrow> AutoEncoder" where
  "train m = set_training True m"

definition eval_mode :: "AutoEncoder \<Rightarrow> AutoEncoder" where
  "eval_mode m = set_training False m"

section \<open>Shapes and topologies\<close>

text \<open>
  A layer fits the widths \<open>a\<close> and \<open>b\<close> when it maps \<open>a\<close> inputs to \<open>b\<close> outputs and owns
  \<open>b\<close> weight rows and \<open>b\<close> biases.
\<close>

definition layer_fits :: "Linear \<Rightarrow> int \<Rightarrow> int \<Rightarrow> bool" where
  "layer_fits l a b \<longleftrightarrow>
     in_features l = a \<and> out_features l = b \<and>
     length (weight l) = nat b \<and> length (bias l) = nat b"

text \<open>What the constructors establish, for the widths \<open>hs\<close> and the first parameter id \<open>n\<close>.\<close>

definition encoder_built :: "Encoder \<Rightarrow> int \<Rightarrow> int list \<Rightarrow> rat \<Rightarrow> activation \<Rightarrow> nat \<Rightarrow> bool" where
  "encoder_built e isz hs dr act n \<longleftrightarrow>
     enc_hidden_layers e = hs \<and> enc_input_size e = isz \<and> enc_dropout_rate e = dr \<and>
     enc_activation e = act \<and> enc_dropout e = \<lparr>p = dr, training = True\<rparr> \<and>
     enc_n_layers e = int (length hs) - 1 \<and> length (enc_dense e) = length hs - 1 \<and>
     layer_fits (enc_input_layer e) isz (hs ! 0) \<and> param_id (enc_input_layer e) = n \<and>
     (\<forall>t<length hs - 1. layer_fits (enc_dense e ! t) (hs ! t) (hs ! Suc t) \<and>
                         param_id (enc_dense e ! t) = Suc n + t)"

definition decoder_built :: "Decoder \<Rightarrow> int \<Rightarrow> int list \<Rightarrow> rat \<Rightarrow> activation \<Rightarrow> nat \<Rightarrow> bool" where
  "decoder_built d isz hs dr act n \<longleftrightarrow>
     dec_hidden_layers d = rev hs \<and> dec_activation d = act \<and>
     dec_dropout d = \<lparr>p = dr, training = True\<rparr> \<and>
     dec_n_layers d = int (length hs) - 1 \<and> length (dec_dense d) = length hs - 1 \<and>
     layer_fits (dec_output_layer d) (hs ! 0) isz \<and>
     param_id (dec_output_layer d) = n + (length hs - 1) \<and>
     (\<forall>t<length hs - 1. layer_fits (dec_dense d ! t) (rev hs ! t) (rev hs ! Suc t) \<and>
                         param_id (dec_dense d ! t) = n + t)"

definition model_built :: "AutoEncoder \<Rightarrow> int \<Rightarrow> int list \<Rightarrow> rat \<Rightarrow> nat \<Rightarrow> bool" where
  "model_built m isz hs dr n \<longleftrightarrow>
     encoder_built (encoder m) isz hs dr ReLU n \<and>
     decoder_built (decoder m) isz hs dr ReLU (n + length hs)"

text \<open>
  The topology of a Decoder is the sequence of the shapes of its layers, in the order the
  forward pass applies them; its parameters are identified by the ids of those layers.
\<close>

definition Linear_shape :: "Linear \<Rightarrow> int \<times> int" where
  "Linear_shape l = (in_features l, out_features l)"

definition Decoder_topology :: "Decoder \<Rightarrow> (int \<times> int) list" where
  "Decoder_topology d = map Linear_shape (dec_dense d @ [dec_output_layer d])"

definition Decoder_param_ids :: "Decoder \<Rightarrow> nat set" where
  "Decoder_param_ids d = set (map param_id (dec_dense d @ [dec_output_layer d]))"

text \<open>
  Two Encoders with the widths \<open>[a, b, c]\<close> and \<open>[c, b, a]\<close> are built, then a Decoder from
  each.
\<close>

definition mirrored_decoders ::
  "init_source \<Rightarrow> int \<Rightarrow> int \<Rightarrow> int \<Rightarrow> int \<Rightarrow> rat \<Rightarrow> nat \<Rightarrow> error + (Decoder \<times> Decoder)" where
  "mirrored_decoders g input_size a b c dropout_rate n =
     ebind (Encoder_init g input_size [a, b, c] dropout_rate ReLU n) (\<lambda>(e1, n1).
     ebind (Encoder_init g input_size [c, b, a] dropout_rate ReLU n1) (\<lambda>(e2, n2).
     ebind (Decoder_init g e1 ReLU n2) (\<lambda>(d1, n3).
     ebind (Decoder_init g e2 ReLU n3) (\<lambda>(d2, n4).
     Inr (d1, d2)))))"

text \<open>
  The layers the Encoder constructor asks the library for, in order: \<open>input_size\<close> to the
  first width, then each width to the next. \<open>layers_lib\<close> asks the library for a sequence
  of layers one after the other and stops at the first one it refuses.
\<close>

definition layer_sizes :: "int \<Rightarrow> int list \<Rightarrow> (int \<times> int) list" where
  "layer_sizes input_size hidden_layers = zip (input_size # hidden_layers) hidden_layers"

fun layers_lib ::
  "linear_lib \<Rightarrow> (int \<times> int) list \<Rightarrow> nat \<Rightarrow> error + (Linear list \<times> nat)" where
  "layers_lib new_linear [] n = Inr ([], n)"
| "layers_lib new_linear (ab # rest) n =
     ebind (new_linear (fst ab) (snd ab) n) (\<lambda>(l, n').
     ebind (layers_lib new_linear rest n') (\<lambda>(ls, n'').
     Inr (l # ls, n'')))"

text \<open>
  A library constructor with a refusal of its own, for the examples: a size that does not fit
  a signed 64-bit integer raises TypeError, any other size is treated as by \<open>Linear_init\<close>.
\<close>

definition Linear_init_int64 :: "init_source \<Rightarrow> linear_lib" where
  "Linear_init_int64 g fin fout n =
     (if 2 ^ 63 \<le> fin \<or> 2 ^ 63 \<le> fout then Inl TypeError else Linear_init g fin fout n)"

text \<open>Concrete parameter sources for the examples.\<close>

definition zero_init :: init_source where
  "zero_init n r c = 0"

definition unit_init :: init_source where
  "unit_init n r c = (if c = 0 then 1 else 0)"

section \<open>The notebook's cells\<close>

subsection \<open>numpy floats, MSELoss\<close>

text \<open>
  A loss read by \<^verbatim>\<open>loss.item()\<close> is a float: a finite value, \<^verbatim>\<open>np.infty\<close> (the initial
  \<^verbatim>\<open>best_loss\<close>) or \<^verbatim>\<open>nan\<close> (the mean of no values). A comparison with \<^verbatim>\<open>nan\<close> is false.
  Values are compared exactly; the rounding of the library's 32-bit comparison once
  \<^verbatim>\<open>best_loss\<close> holds a tensor is not modelled (the example runs use values that both
  formats represent exactly).
\<close>

datatype npfloat = Fin rat | PosInf | NaN

fun np_less :: "npfloat \<Rightarrow> npfloat \<Rightarrow> bool" where
  "np_less (Fin a) (Fin b) = (a < b)"
| "np_less (Fin a) PosInf = True"
| "np_less (Fin a) NaN = False"
| "np_less PosInf b = False"
| "np_less NaN b = False"

fun fin_value :: "npfloat \<Rightarrow> rat" where
  "fin_value (Fin a) = a"
| "fin_value PosInf = 0"
| "fin_value NaN = 0"

definition np_mean :: "npfloat list \<Rightarrow> npfloat" where
  "np_mean ls =
     (if ls = [] \<or> NaN \<in> set ls then NaN
      else if PosInf \<in> set ls then PosInf
      else Fin (sum_list (map fin_value ls) / of_nat (length ls)))"

text \<open>\<^verbatim>\<open>np.round(v, 5)\<close>: to five decimals, a tie going to the even neighbour.\<close>

definition round_half_even :: "rat \<Rightarrow> int" where
  "round_half_even q =
     (let f = \<lfloor>q\<rfloor>; d = q - of_int f
      in if d < 1 / 2 then f else if 1 / 2 < d then f + 1 else if even f then f else f + 1)"

fun np_round5 :: "npfloat \<Rightarrow> npfloat" where
  "np_round5 (Fin q) = Fin (of_int (round_half_even (q * 100000)) / 100000)"
| "np_round5 PosInf = PosInf"
| "np_round5 NaN = NaN"

text \<open>
  \<^verbatim>\<open>nn.MSELoss()\<close> on two batches (rectangular lists of rows): the library broadcasts them
  to a common shape, repeating a dimension of size 1 (with a warning), and refuses shapes that
  cannot be broadcast; the loss is the mean of the squared differences over all entries of
  the common shape, \<^verbatim>\<open>nan\<close> over no entry.
\<close>

definition n_cols :: "rat list list \<Rightarrow> nat" where
  "n_cols M = (case M of [] \<Rightarrow> 0 | u # us \<Rightarrow> length u)"

definition broadcastable :: "nat \<Rightarrow> nat \<Rightarrow> bool" where
  "broadcastable a b \<longleftrightarrow> a = b \<or> a = 1 \<or> b = 1"

definition broadcast_dim :: "nat \<Rightarrow> nat \<Rightarrow> nat" where
  "broadcast_dim a b = (if a = 1 then b else a)"

definition expand :: "nat \<Rightarrow> 'a list \<Rightarrow> 'a list" where
  "expand n xs = (if length xs = 1 then replicate n (hd xs) else xs)"

definition MSELoss :: "rat list list \<Rightarrow> rat list list \<Rightarrow> error + npfloat" where
  "MSELoss output target =
     (let rows = broadcast_dim (length output) (length target);
          cols = broadcast_dim (n_cols output) (n_cols target)
      in if broadcastable (length output) (length target) \<and>
            broadcastable (n_cols output) (n_cols target)
         then if rows * cols = 0 then Inr NaN
              else Inr (Fin (sum_list (map (\<lambda>(u, v). sum_list (map (\<lambda>(a, b). (a - b) * (a - b))
                                                              (zip u v)))
                                         (zip (expand rows (map (expand cols) output))
                                              (expand rows (map (expand cols) target))))
                             / of_nat (rows * cols)))
         else Inl RuntimeError)"

subsection \<open>Applying the model to a batch\<close>

text \<open>The layers act on the last dimension: the rows go through the model one after another.\<close>

fun forward_batch ::
  "AutoEncoder \<Rightarrow> rand \<Rightarrow> rat list list \<Rightarrow> nat \<Rightarrow> error + ((rat list \<times> rat list) list \<times> nat)" where
  "forward_batch m r [] k = Inr ([], k)"
| "forward_batch m r (x # xs) k =
     ebind (AutoEncoder_forward m r (x, k)) (\<lambda>(y, k1).
     ebind (forward_batch m r xs k1) (\<lambda>(ys, k2).
     Inr (y # ys, k2)))"

subsection \<open>The optimizer\<close>

text \<open>
  \<^verbatim>\<open>loss.backward()\<close> followed by \<^verbatim>\<open>optimizer.step()\<close> overwrites the values of the parameter
  tensors in place and leaves everything else of the model alone. The gradient computation
  and the momentum update belong to the library: they are a parameter \<open>opt\<close>, which from the
  optimizer's own state, the learning rate, the model, the batch and the random samples the
  forward pass drew gives the new state and the new values of every parameter.
\<close>

type_synonym 'o optimizer =
  "'o \<Rightarrow> rat \<Rightarrow> AutoEncoder \<Rightarrow> rat list list \<Rightarrow> rat list \<Rightarrow> 'o \<times> init_source"

definition refill :: "init_source \<Rightarrow> Linear \<Rightarrow> Linear" where
  "refill g l =
     l\<lparr>weight := map (\<lambda>r. map (\<lambda>c. g (param_id l) r c) [0..<length (weight l ! r)])
                   [0..<length (weight l)],
       bias := map (\<lambda>r. g (param_id l) r (nat (in_features l))) [0..<length (bias l)]\<rparr>"

definition set_parameters :: "init_source \<Rightarrow> AutoEncoder \<Rightarrow> AutoEncoder" where
  "set_parameters g m =
     m\<lparr>encoder := (encoder m)\<lparr>enc_input_layer := refill g (enc_input_layer (encoder m)),
                              enc_dense := map (refill g) (enc_dense (encoder m))\<rparr>,
       decoder := (decoder m)\<lparr>dec_dense := map (refill g) (dec_dense (decoder m)),
                              dec_output_layer := refill g (dec_output_layer (decoder m))\<rparr>\<rparr>"

subsection \<open>The kernel's state\<close>

text \<open>
  The global variables of the notebook, the checkpoint files, the cursor of the random source
  and the observable events in the order they happen. \<open>files\<close> gives what \<^verbatim>\<open>torch.load\<close>
  yields for a path in this kernel: nothing is there (\<open>None\<close>), the file is there and
  unpickling it raises an error, or it unpickles to a model; a file written by \<^verbatim>\<open>torch.save\<close>
  in this kernel unpickles to the model saved (as in the recorded run). \<open>losses\<close> and \<open>loss\<close> are unbound
  (\<open>None\<close>) until a cell assigns them; reading an unbound name raises NameError.
\<close>

datatype event =
    ForwardPass bool bool
  | OptimizerStep rat
  | SchedulerStep rat
  | Print nat nat npfloat
  | Save string

record 'o notebook =
  model :: AutoEncoder
  lr :: rat
  opt_state :: 'o
  scheduler_last_epoch :: nat
  losses :: "npfloat list option"
  loss :: "npfloat option"
  mean_loss :: npfloat
  best_loss :: npfloat
  files :: "string \<Rightarrow> (error + AutoEncoder) option"
  cursor :: nat
  trace :: "event list"

text \<open>A \<^verbatim>\<open>for\<close> loop over a finite sequence whose body may raise.\<close>

fun for_each :: "('a \<Rightarrow> 's \<Rightarrow> error + 's) \<Rightarrow> 'a list \<Rightarrow> 's \<Rightarrow> error + 's" where
  "for_each body [] s = Inr s"
| "for_each body (x # xs) s = ebind (body x s) (for_each body xs)"

definition torch_save :: "string \<Rightarrow> 'o notebook \<Rightarrow> 'o notebook" where
  "torch_save path s =
     s\<lparr>files := (files s)(path := Some (Inr (model s))),
       trace := trace s @ [Save path]\<rparr>"

definition torch_load ::
  "(string \<Rightarrow> (error + AutoEncoder) option) \<Rightarrow> string \<Rightarrow> error + AutoEncoder" where
  "torch_load fs path = (case fs path of None \<Rightarrow> Inl FileNotFoundError | Some res \<Rightarrow> res)"

text \<open>The statement \<^verbatim>\<open>model = torch.load(path)\<close>.\<close>

definition load_model :: "string \<Rightarrow> 'o notebook \<Rightarrow> error + 'o notebook" where
  "load_model path s = ebind (torch_load (files s) path) (\<lambda>m. Inr (s\<lparr>model := m\<rparr>))"

subsection \<open>Create the model and the training parameters\<close>

text \<open>
  The cell builds the model, calls \<^verbatim>\<open>model.train()\<close>, and creates the SGD optimizer with
  \<^verbatim>\<open>lr = 0.1\<close> and the \<^verbatim>\<open>StepLR\<close> scheduler (\<^verbatim>\<open>step_size=100\<close>, \<^verbatim>\<open>gamma=0.1\<close>). In the notebook
  the input has 784 features, the widths are \<open>[500, 500, 2000, 10]\<close> and the dropout rate is
  0.2; here they are arguments.
\<close>

definition setup_cell ::
  "init_source \<Rightarrow> 'o \<Rightarrow> int \<Rightarrow> int list \<Rightarrow> rat \<Rightarrow> (string \<Rightarrow> (error + AutoEncoder) option)
     \<Rightarrow> error + 'o notebook" where
  "setup_cell g o0 n_input_features hidden_layers dropout_rate fs =
     ebind (AutoEncoder_init g n_input_features hidden_layers dropout_rate ReLU 0) (\<lambda>(m, n).
     Inr \<lparr>model = train m, lr = 1 / 10, opt_state = o0, scheduler_last_epoch = 0,
          losses = None, loss = None, mean_loss = NaN, best_loss = PosInf,
          files = fs, cursor = 0, trace = []\<rparr>)"

definition scheduler_step :: "'o notebook \<Rightarrow> 'o notebook" where
  "scheduler_step s =
     (let e = Suc (scheduler_last_epoch s);
          new_lr = (if e mod 100 = 0 then lr s * (1 / 10) else lr s)
      in s\<lparr>scheduler_last_epoch := e, lr := new_lr, trace := trace s @ [SchedulerStep new_lr]\<rparr>)"

subsection \<open>The batch loop\<close>

text \<open>
  The body shared by both training cells: flatten the batch (\<^verbatim>\<open>view(x_batch.shape[0], -1)\<close>
  fails on an empty batch), apply the model, take the reconstruction, compute the loss,
  append it to \<open>losses\<close>, back-propagate and step the optimizer.
\<close>

definition train_batch ::
  "'o optimizer \<Rightarrow> rand \<Rightarrow> rat list list \<Rightarrow> 'o notebook \<Rightarrow> error + 'o notebook" where
  "train_batch opt r x_batch s =
     (if x_batch = [] then Inl RuntimeError
      else
        ebind (forward_batch (model s) r x_batch (cursor s)) (\<lambda>(ys, k).
        ebind (MSELoss (map snd ys) x_batch) (\<lambda>l.
        ebind (case losses s of None \<Rightarrow> Inl NameError | Some ls \<Rightarrow> Inr ls) (\<lambda>ls.
        (case opt (opt_state s) (lr s) (model s) x_batch (map r [cursor s..<k]) of
           (o1, g) \<Rightarrow>
             Inr (s\<lparr>model := set_parameters g (model s), opt_state := o1,
                    losses := Some (ls @ [l]), loss := Some l, cursor := k,
                    trace := trace s @
                      [ForwardPass (training (enc_dropout (encoder (model s))))
                                   (training (dec_dropout (decoder (model s)))),
                       OptimizerStep (lr s)]\<rparr>))))))"

text \<open>Both training cells set \<^verbatim>\<open>eval_every = 10\<close>.\<close>

definition eval_every :: nat where
  "eval_every = 10"

definition print_loss :: "nat \<Rightarrow> nat \<Rightarrow> 'o notebook \<Rightarrow> 'o notebook" where
  "print_loss epoch n_epochs s =
     (if (epoch + 1) mod eval_every = 0
      then s\<lparr>trace := trace s @ [Print (epoch + 1) n_epochs (mean_loss s)]\<rparr>
      else s)"

subsection \<open>Pre-train AutoEncoder\<close>

text \<open>
  One epoch: \<^verbatim>\<open>losses = []\<close>, the batch loop, the rounded mean, the report every
  \<open>eval_every\<close> epochs, the scheduler step, and
  \<^verbatim>\<open>if mean_loss < best_loss: best_loss = loss; torch.save(model, ...)\<close>, where \<^verbatim>\<open>loss\<close> is
  the loss of the last batch.
\<close>

definition pretrain_epoch ::
  "'o optimizer \<Rightarrow> rand \<Rightarrow> (nat \<Rightarrow> rat list list list) \<Rightarrow> nat \<Rightarrow> nat \<Rightarrow> 'o notebook
     \<Rightarrow> error + 'o notebook" where
  "pretrain_epoch opt r dataloader n_epochs epoch s =
     ebind (for_each (train_batch opt r) (dataloader epoch) (s\<lparr>losses := Some []\<rparr>)) (\<lambda>s1.
     ebind (case losses s1 of None \<Rightarrow> Inl NameError | Some ls \<Rightarrow> Inr ls) (\<lambda>ls.
     (let s2 = s1\<lparr>mean_loss := np_round5 (np_mean ls)\<rparr>;
          s3 = print_loss epoch n_epochs s2;
          s4 = scheduler_step s3
      in if np_less (mean_loss s4) (best_loss s4)
         then ebind (case loss s4 of None \<Rightarrow> Inl NameError | Some l \<Rightarrow> Inr l) (\<lambda>l.
              Inr (torch_save ''./torch_models/autoencoder'' (s4\<lparr>best_loss := l\<rparr>)))
         else Inr s4)))"

definition pretrain_cell ::
  "'o optimizer \<Rightarrow> rand \<Rightarrow> (nat \<Rightarrow> rat list list list) \<Rightarrow> nat \<Rightarrow> 'o notebook
     \<Rightarrow> error + 'o notebook" where
  "pretrain_cell opt r dataloader n_epochs s =
     for_each (pretrain_epoch opt r dataloader n_epochs) [0..<n_epochs]
       (s\<lparr>best_loss := PosInf\<rparr>)"

subsection \<open>Fine-tune AutoEncoder\<close>

text \<open>
  The cell loads the pre-training checkpoint, calls \<^verbatim>\<open>model.eval()\<close>, creates a new SGD
  optimizer with \<^verbatim>\<open>lr = 0.1\<close> (no scheduler), sets \<^verbatim>\<open>best_loss\<close> and loops. An epoch is the
  batch loop, the rounded mean of \<open>losses\<close>, the report and \<^verbatim>\<open>torch.save\<close>; the cell has no
  \<^verbatim>\<open>losses = []\<close>.
\<close>

definition finetune_epoch ::
  "'o optimizer \<Rightarrow> rand \<Rightarrow> (nat \<Rightarrow> rat list list list) \<Rightarrow> nat \<Rightarrow> nat \<Rightarrow> 'o notebook
     \<Rightarrow> error + 'o notebook" where
  "finetune_epoch opt r dataloader n_epochs epoch s =
     ebind (for_each (train_batch opt r) (dataloader epoch) s) (\<lambda>s1.
     ebind (case losses s1 of None \<Rightarrow> Inl NameError | Some ls \<Rightarrow> Inr ls) (\<lambda>ls.
     (let s2 = s1\<lparr>mean_loss := np_round5 (np_mean ls)\<rparr>;
          s3 = print_loss epoch n_epochs s2
      in Inr (torch_save ''./torch_models/autoencoder-finetuned'' s3))))"

definition finetune_cell ::
  "'o optimizer \<Rightarrow> 'o \<Rightarrow> rand \<Rightarrow> (nat \<Rightarrow> rat list list list) \<Rightarrow> nat \<Rightarrow> 'o notebook
     \<Rightarrow> error + 'o notebook" where
  "finetune_cell opt o0 r dataloader n_epochs s =
     ebind (load_model ''./torch_models/autoencoder'' s) (\<lambda>s1.
     for_each (finetune_epoch opt r dataloader n_epochs) [0..<n_epochs]
       (s1\<lparr>model := eval_mode (model s1), lr := 1 / 10, opt_state := o0,
           best_loss := PosInf\<rparr>))"

subsection \<open>Evaluate the auto-encoders\<close>

text \<open>
  \<^verbatim>\<open>model = torch.load(path)\<close> and \<^verbatim>\<open>X_embedded = model(Tensor(X).to(device))[0]\<close>: the cell
  returns the new state and the embedding matrix.
\<close>

definition embed_cell ::
  "string \<Rightarrow> rand \<Rightarrow> rat list list \<Rightarrow> 'o notebook \<Rightarrow> error + ('o notebook \<times> rat list list)" where
  "embed_cell path r X s =
     ebind (load_model path s) (\<lambda>s1.
     ebind (forward_batch (model s1) r X (cursor s1)) (\<lambda>(ys, k).
     Inr (s1\<lparr>cursor := k,
             trace := trace s1 @
               [ForwardPass (training (enc_dropout (encoder (model s1))))
                            (training (dec_dropout (decoder (model s1))))]\<rparr>,
          map fst ys)))"

definition eval_pretrained_cell ::
  "rand \<Rightarrow> rat list list \<Rightarrow> 'o notebook \<Rightarrow> error + ('o notebook \<times> rat list list)" where
  "eval_pretrained_cell r X s = embed_cell ''./torch_models/autoencoder'' r X s"


section \<open>Observations on states and traces\<close>

definition model_mode :: "AutoEncoder \<Rightarrow> bool \<times> bool" where
  "model_mode m = (training (enc_dropout (encoder m)), training (dec_dropout (decoder m)))"

definition forward_modes :: "event list \<Rightarrow> (bool \<times> bool) list" where
  "forward_modes tr =
     concat (map (\<lambda>ev. case ev of ForwardPass a b \<Rightarrow> [(a, b)] | _ \<Rightarrow> []) tr)"

definition step_rates :: "event list \<Rightarrow> rat list" where
  "step_rates tr = concat (map (\<lambda>ev. case ev of OptimizerStep q \<Rightarrow> [q] | _ \<Rightarrow> []) tr)"

definition scheduler_steps :: "event list \<Rightarrow> rat list" where
  "scheduler_steps tr = concat (map (\<lambda>ev. case ev of SchedulerStep q \<Rightarrow> [q] | _ \<Rightarrow> []) tr)"

definition saved_paths :: "event list \<Rightarrow> string list" where
  "saved_paths tr = concat (map (\<lambda>ev. case ev of Save path \<Rightarrow> [path] | _ \<Rightarrow> []) tr)"

text \<open>The events a cell added to the trace it started from.\<close>

definition new_events :: "'o notebook \<Rightarrow> 'o notebook \<Rightarrow> event list" where
  "new_events s s' = drop (length (trace s)) (trace s')"

definition n_batches :: "(nat \<Rightarrow> rat list list list) \<Rightarrow> nat \<Rightarrow> nat" where
  "n_batches dataloader n_epochs = sum_list (map (\<lambda>e. length (dataloader e)) [0..<n_epochs])"

text \<open>
  The number of records a run of \<open>n_epochs\<close> epochs sends through the model, and the number
  of random samples one record draws in training mode: one per entry entering a dropout
  module, in the Encoder after each dense layer but the last, in the Decoder after each
  dense layer.
\<close>

definition n_records :: "(nat \<Rightarrow> rat list list list) \<Rightarrow> nat \<Rightarrow> nat" where
  "n_records dataloader n_epochs =
     sum_list (map (\<lambda>e. sum_list (map length (dataloader e))) [0..<n_epochs])"

definition draws_per_record :: "int list \<Rightarrow> nat" where
  "draws_per_record hidden_layers =
     sum_list (map (\<lambda>t. nat (hidden_layers ! Suc t)) [0..<length hidden_layers - 2]) +
     sum_list (map (\<lambda>t. nat (rev hidden_layers ! Suc t)) [0..<length hidden_layers - 1])"

text \<open>What the batch loop leaves as it was.\<close>

definition batch_frame :: "'o notebook \<Rightarrow> 'o notebook \<Rightarrow> bool" where
  "batch_frame s s' \<longleftrightarrow>
     lr s' = lr s \<and> model_mode (model s') = model_mode (model s) \<and> files s' = files s \<and>
     scheduler_last_epoch s' = scheduler_last_epoch s \<and> best_loss s' = best_loss s \<and>
     mean_loss s' = mean_loss s"

text \<open>The events of one batch: a forward pass in the model's mode, an optimizer step.\<close>

definition batch_events :: "bool \<times> bool \<Rightarrow> rat \<Rightarrow> nat \<Rightarrow> event list" where
  "batch_events md q n = concat (replicate n [ForwardPass (fst md) (snd md), OptimizerStep q])"

section \<open>Example runs\<close>

text \<open>
  A model with one input feature whose parameters are all zero reconstructs 0 whatever the
  input, so the loss of a batch is the mean square of its entries. \<open>hold\<close> is an optimizer
  whose step writes the values of a fixed source (here the ones the model already has).
\<close>

definition hold :: "init_source \<Rightarrow> unit optimizer" where
  "hold g u q m x_batch samples = ((), g)"

definition no_files :: "string \<Rightarrow> (error + AutoEncoder) option" where
  "no_files path = None"

definition keep_all :: rand where
  "keep_all k = 0"

definition drop_all :: rand where
  "drop_all k = 9 / 10"

text \<open>Two pre-training epochs of two batches each: losses 4 and 0, then 1 and 1.\<close>

definition two_epochs :: "nat \<Rightarrow> rat list list list" where
  "two_epochs epoch = (if epoch = 0 then [[[2]], [[0]]] else [[[1]], [[1]]])"

text \<open>Fine-tuning epochs of one batch with loss 9.\<close>

definition one_batch :: "nat \<Rightarrow> rat list list list" where
  "one_batch epoch = [[[3]]]"

definition zero_setup :: "unit notebook" where
  "zero_setup = projr (setup_cell zero_init () 1 [1, 1] 0 no_files)"

definition zero_pretrained_once :: "unit notebook" where
  "zero_pretrained_once =
     projr (pretrain_cell (hold zero_init) keep_all two_epochs 1 zero_setup)"

definition zero_pretrained :: "unit notebook" where
  "zero_pretrained = projr (pretrain_cell (hold zero_init) keep_all two_epochs 2 zero_setup)"

definition zero_finetuned_once :: "unit notebook" where
  "zero_finetuned_once =
     projr (finetune_cell (hold zero_init) () keep_all one_batch 1 zero_pretrained)"

definition zero_finetuned :: "unit notebook" where
  "zero_finetuned =
     projr (finetune_cell (hold zero_init) () keep_all one_batch 2 zero_pretrained)"

text \<open>
  A model with the widths \<open>[1, 1, 1]\<close>, dropout rate 0.2, whose layers all have weight 1 and
  bias 0, pre-trained for one epoch on one batch.
\<close>

definition unit_setup :: "unit notebook" where
  "unit_setup = projr (setup_cell unit_init () 1 [1, 1, 1] (1 / 5) no_files)"

definition unit_pretrained :: "unit notebook" where
  "unit_pretrained = projr (pretrain_cell (hold unit_init) keep_all one_batch 1 unit_setup)"





text \<open>
  Two pre-training epochs of two batches each on the all-zero model: losses 0 and 4 (mean 2),
  then 9/4 and 9/4 (mean 2.25).
\<close>

definition worse_epochs :: "nat \<Rightarrow> rat list list list" where
  "worse_epochs epoch = (if epoch = 0 then [[[0]], [[2]]] else [[[3 / 2]], [[3 / 2]]])"

definition worse_pretrained_once :: "unit notebook" where
  "worse_pretrained_once =
     projr (pretrain_cell (hold zero_init) keep_all worse_epochs 1 zero_setup)"

definition worse_pretrained :: "unit notebook" where
  "worse_pretrained = projr (pretrain_cell (hold zero_init) keep_all worse_epochs 2 zero_setup)"

text \<open>
  The model with the widths \<open>[1, 1, 1]\<close> and dropout rate 0.2, pre-trained with a random
  source that drops every entry, and fine-tuned for two epochs with either source.
\<close>

definition unit_pretrained_dropped :: "unit notebook" where
  "unit_pretrained_dropped =
     projr (pretrain_cell (hold unit_init) drop_all one_batch 1 unit_setup)"

definition unit_finetuned :: "unit notebook" where
  "unit_finetuned =
     projr (finetune_cell (hold unit_init) () keep_all one_batch 2 unit_pretrained)"

definition unit_finetuned_dropped :: "unit notebook" where
  "unit_finetuned_dropped =
     projr (finetune_cell (hold unit_init) () drop_all one_batch 2 unit_pretrained)"

section \<open>Properties of the model classes\<close>

subsection \<open>Construction\<close>

lemma py_index_nat: "i < length xs \<Longrightarrow> py_index xs (int i) = Inr (xs ! i)"
  by (simp add: py_index_def)

lemma py_index_nat_Suc: "Suc i < length xs \<Longrightarrow> py_index xs (int i + 1) = Inr (xs ! Suc i)"
  using py_index_nat [of "Suc i" xs] by (simp add: add.commute)

lemma Linear_init_ok:
  "0 \<le> a \<Longrightarrow> 0 \<le> b \<Longrightarrow>
   \<exists>l. Linear_init g a b n = Inr (l, Suc n) \<and> layer_fits l a b \<and> param_id l = n"
  by (simp add: Linear_init_def layer_fits_def)

lemma Linear_init_neg: "a < 0 \<or> b < 0 \<Longrightarrow> Linear_init g a b n = Inl RuntimeError"
  by (auto simp add: Linear_init_def)

lemma dense_loop_ok:
  "m < length hs \<Longrightarrow> \<forall>w\<in>set hs. 0 \<le> w \<Longrightarrow> j \<le> m \<Longrightarrow>
   \<exists>ds. dense_loop g hs (map int [j..<m]) n = Inr (ds, n + (m - j)) \<and>
        length ds = m - j \<and>
        (\<forall>t<m - j. layer_fits (ds ! t) (hs ! (j + t)) (hs ! Suc (j + t)) \<and>
                    param_id (ds ! t) = n + t)"
proof (induction "m - j" arbitrary: j n)
  case 0
  then show ?case by simp
next
  case (Suc d)
  then have jm: "j < m" and d: "d = m - Suc j" and sj: "Suc j \<le> m" by auto
  have a0: "0 \<le> hs ! j" and b0: "0 \<le> hs ! Suc j"
    using Suc.prems jm by auto
  obtain l where l: "Linear_init g (hs ! j) (hs ! Suc j) n = Inr (l, Suc n)"
      "layer_fits l (hs ! j) (hs ! Suc j)" "param_id l = n"
    using Linear_init_ok [OF a0 b0] by blast
  obtain ds where ds: "dense_loop g hs (map int [Suc j..<m]) (Suc n) = Inr (ds, Suc n + (m - Suc j))"
      "length ds = m - Suc j"
      "\<forall>t<m - Suc j. layer_fits (ds ! t) (hs ! (Suc j + t)) (hs ! Suc (Suc j + t)) \<and>
                    param_id (ds ! t) = Suc n + t"
    using Suc.hyps(1) [OF d Suc.prems(1) Suc.prems(2) sj] by blast
  have idx: "py_index hs (int j) = Inr (hs ! j)" "py_index hs (int j + 1) = Inr (hs ! Suc j)"
    using jm Suc.prems(1) by (simp_all add: py_index_nat py_index_nat_Suc)
  have run: "dense_loop g hs (map int [j..<m]) n = Inr (l # ds, n + (m - j))"
    using jm idx l(1) ds(1) by (simp add: upt_conv_Cons)
  have len: "length (l # ds) = m - j" using ds(2) jm by simp
  have each: "\<forall>t<m - j. layer_fits ((l # ds) ! t) (hs ! (j + t)) (hs ! Suc (j + t)) \<and>
                    param_id ((l # ds) ! t) = n + t"
  proof (intro allI impI)
    fix t assume t: "t < m - j"
    show "layer_fits ((l # ds) ! t) (hs ! (j + t)) (hs ! Suc (j + t)) \<and>
                    param_id ((l # ds) ! t) = n + t"
    proof (cases t)
      case 0
      then show ?thesis using l by simp
    next
      case (Suc t')
      then have "t' < m - Suc j" using t by simp
      then show ?thesis using ds(3) Suc by simp
    qed
  qed
  show ?case using run len each by blast
qed

lemma dense_loop_neg:
  "m < length hs \<Longrightarrow> j < m \<Longrightarrow> \<exists>t. j \<le> t \<and> t \<le> m \<and> hs ! t < 0 \<Longrightarrow>
   dense_loop g hs (map int [j..<m]) n = Inl RuntimeError"
proof (induction "m - j" arbitrary: j n)
  case 0
  then show ?case by simp
next
  case (Suc d)
  have idx: "py_index hs (int j) = Inr (hs ! j)" "py_index hs (int j + 1) = Inr (hs ! Suc j)"
    using Suc.prems by (simp_all add: py_index_nat py_index_nat_Suc)
  show ?case
  proof (cases "hs ! j < 0 \<or> hs ! Suc j < 0")
    case True
    then show ?thesis using Suc.prems(2) idx Linear_init_neg [OF True]
      by (simp add: upt_conv_Cons)
  next
    case False
    then obtain l where l: "Linear_init g (hs ! j) (hs ! Suc j) n = Inr (l, Suc n)"
      using Linear_init_ok [of "hs ! j" "hs ! Suc j" g n] by auto
    obtain t where t: "j \<le> t" "t \<le> m" "hs ! t < 0" using Suc.prems(3) by blast
    have "t \<noteq> j" "t \<noteq> Suc j" using False t(3) by auto
    then have t2: "Suc j \<le> t" "Suc j < m" using t by auto
    have d: "d = m - Suc j" using Suc.hyps(2) by simp
    have "dense_loop g hs (map int [Suc j..<m]) (Suc n) = Inl RuntimeError"
      using Suc.hyps(1) [OF d Suc.prems(1) t2(2)] t t2 by blast
    then show ?thesis using Suc.prems(2) idx l by (simp add: upt_conv_Cons)
  qed
qed


subsection \<open>Forward passes\<close>

lemma Linear_forward_ok:
  "layer_fits l a b \<Longrightarrow> 0 \<le> a \<Longrightarrow> length x = nat a \<Longrightarrow>
   \<exists>y. Linear_forward l x = Inr y \<and> length y = nat b"
  by (simp add: Linear_forward_def layer_fits_def)

lemma Dropout_forward_length: "length (fst (Dropout_forward d r (x, k))) = length x"
  by (simp add: Dropout_forward_def)

lemma Dropout_forward_eval: "\<not> training d \<Longrightarrow> Dropout_forward d r xk = xk"
  by (simp add: Dropout_forward_def split: prod.splits)

lemma ReLU_length: "length (ReLU x) = length x"
  by (simp add: ReLU_def)

lemma getattr_dense_nat: "i < length ds \<Longrightarrow> getattr_dense ds (int i) = Inr (ds ! i)"
  by (simp add: getattr_dense_def)

lemma forward_loop_ok:
  "\<forall>t<length ds. layer_fits (ds ! t) (ws ! t) (ws ! Suc t) \<Longrightarrow>
   \<forall>t\<le>length ds. 0 \<le> ws ! t \<Longrightarrow>
   \<forall>v. length (act v) = length v \<Longrightarrow>
   j \<le> m \<Longrightarrow> m \<le> length ds \<Longrightarrow> length x = nat (ws ! j) \<Longrightarrow>
   \<exists>y k'. forward_loop ds act dp r (map int [j..<m]) (x, k) = Inr (y, k') \<and>
          length y = nat (ws ! m)"
proof (induction "m - j" arbitrary: j x k)
  case 0
  then show ?case by simp
next
  case (Suc d)
  then have jm: "j < m" and jl: "j < length ds" by auto
  have fit: "layer_fits (ds ! j) (ws ! j) (ws ! Suc j)" using Suc.prems(1) jl by blast
  have nonneg: "0 \<le> ws ! j" using Suc.prems(2) jl by simp
  obtain y where y: "Linear_forward (ds ! j) x = Inr y" "length y = nat (ws ! Suc j)"
    using Linear_forward_ok [OF fit nonneg Suc.prems(6)] by blast
  obtain x' k1 where dr: "Dropout_forward dp r (act y, k) = (x', k1)"
    by (cases "Dropout_forward dp r (act y, k)")
  have "length x' = length (act y)"
    using Dropout_forward_length [of dp r "act y" k] dr by simp
  then have lx': "length x' = nat (ws ! Suc j)" using y(2) Suc.prems(3) by simp
  have d: "d = m - Suc j" using Suc.hyps(2) by simp
  have sj: "Suc j \<le> m" using jm by simp
  obtain z k' where z: "forward_loop ds act dp r (map int [Suc j..<m]) (x', k1) = Inr (z, k')"
      "length z = nat (ws ! m)"
    using Suc.hyps(1) [OF d Suc.prems(1) Suc.prems(2) Suc.prems(3) sj Suc.prems(5) lx'] by blast
  have "forward_loop ds act dp r (map int [j..<m]) (x, k) = Inr (z, k')"
    using jm jl y(1) dr z(1) by (simp add: upt_conv_Cons getattr_dense_nat)
  then show ?case using z(2) by blast
qed

lemma Encoder_init_ok:
  assumes hs: "hs \<noteq> []" and pos: "\<forall>w\<in>set hs. 0 \<le> w" and isz: "0 \<le> isz"
    and dr: "0 \<le> dr" "dr \<le> 1"
  shows "\<exists>e. Encoder_init g isz hs dr act n = Inr (e, n + length hs) \<and>
              encoder_built e isz hs dr act n"
proof -
  have h0: "py_index hs 0 = Inr (hs ! 0)" using hs py_index_nat [of 0 hs] by simp
  have "0 \<le> hs ! 0" using hs pos by simp
  then obtain inp where inp: "Linear_init g isz (hs ! 0) n = Inr (inp, Suc n)"
      "layer_fits inp isz (hs ! 0)" "param_id inp = n"
    using Linear_init_ok [OF isz] by blast
  have m: "length hs - 1 < length hs" using hs by simp
  obtain ds where ds: "dense_loop g hs (map int [0..<length hs - 1]) (Suc n)
        = Inr (ds, Suc n + (length hs - 1 - 0))"
      "length ds = length hs - 1 - 0"
      "\<forall>t<length hs - 1 - 0. layer_fits (ds ! t) (hs ! (0 + t)) (hs ! Suc (0 + t)) \<and>
                    param_id (ds ! t) = Suc n + t"
    using dense_loop_ok [OF m pos, of 0 g "Suc n"] by blast
  have rng: "py_range0 (int (length hs) - 1) = map int [0..<length hs - 1]"
    by (simp add: py_range0_def nat_diff_distrib')
  have dp: "Dropout_init dr = Inr \<lparr>p = dr, training = True\<rparr>"
    using dr by (simp add: Dropout_init_def)
  have cnt: "Suc n + (length hs - 1 - 0) = n + length hs" using hs
    by (cases hs) simp_all
  have li: "int (length ds) = int (length hs) - 1" using ds(2) hs by (cases hs) simp_all
  show ?thesis
    unfolding Encoder_init_def encoder_built_def
    using h0 inp ds rng dp cnt li by simp
qed


lemma ebind_eq_Inr: "ebind m f = Inr v \<longleftrightarrow> (\<exists>a. m = Inr a \<and> f a = Inr v)"
  by (cases m) simp_all

lemma Decoder_init_ok:
  assumes hs: "hs \<noteq> []" and pos: "\<forall>w\<in>set hs. 0 \<le> w" and isz: "0 \<le> isz"
    and dr: "0 \<le> dr" "dr \<le> 1"
    and e: "enc_hidden_layers e = hs" "enc_n_layers e = int (length hs) - 1"
      "enc_input_size e = isz" "enc_dropout_rate e = dr"
  shows "\<exists>d. Decoder_init g e act n = Inr (d, n + length hs) \<and>
              decoder_built d isz hs dr act n"
proof -
  have m: "length hs - 1 < length (rev hs)" using hs by simp
  have pos': "\<forall>w\<in>set (rev hs). 0 \<le> w" using pos by simp
  obtain ds where ds: "dense_loop g (rev hs) (map int [0..<length hs - 1]) n
        = Inr (ds, n + (length hs - 1 - 0))"
      "length ds = length hs - 1 - 0"
      "\<forall>t<length hs - 1 - 0. layer_fits (ds ! t) (rev hs ! (0 + t)) (rev hs ! Suc (0 + t)) \<and>
                    param_id (ds ! t) = n + t"
    using dense_loop_ok [OF m pos', of 0 g n] by blast
  have rng: "py_range0 (int (length hs) - 1) = map int [0..<length hs - 1]"
    by (simp add: py_range0_def nat_diff_distrib')
  have lastw: "py_index (rev hs) (- 1) = Inr (hs ! 0)"
    using hs by (cases hs) (simp_all add: py_index_def nth_append)
  have "0 \<le> hs ! 0" using hs pos by simp
  then obtain outp where outp:
      "Linear_init g (hs ! 0) isz (n + (length hs - 1)) = Inr (outp, Suc (n + (length hs - 1)))"
      "layer_fits outp (hs ! 0) isz" "param_id outp = n + (length hs - 1)"
    using Linear_init_ok [OF _ isz] by blast
  have dp: "Dropout_init dr = Inr \<lparr>p = dr, training = True\<rparr>"
    using dr by (simp add: Dropout_init_def)
  have cnt: "Suc (n + (length hs - 1)) = n + length hs" using hs
    by (cases hs) simp_all
  show ?thesis
    unfolding Decoder_init_def decoder_built_def Let_def
    using e ds rng lastw outp dp cnt by simp
qed

lemma Encoder_forward_ok:
  assumes built: "encoder_built e isz hs dr act n"
    and len: "2 \<le> length hs" and pos: "\<forall>w\<in>set hs. 0 \<le> w" and isz: "0 \<le> isz"
    and act: "\<forall>v. length (act v) = length v"
    and x: "length x = nat isz"
  shows "\<exists>y k'. Encoder_forward (e\<lparr>enc_dropout := dp\<rparr>) r (x, k) = Inr (y, k') \<and>
                 length y = nat (last hs)"
proof -
  let ?ds = "enc_dense e"
  have b: "enc_activation e = act" "enc_n_layers e = int (length hs) - 1"
      "length ?ds = length hs - 1" "layer_fits (enc_input_layer e) isz (hs ! 0)"
      "\<forall>t<length hs - 1. layer_fits (?ds ! t) (hs ! t) (hs ! Suc t)"
    using built by (simp_all add: encoder_built_def)
  obtain y0 where y0: "Linear_forward (enc_input_layer e) x = Inr y0" "length y0 = nat (hs ! 0)"
    using Linear_forward_ok [OF b(4) isz x] by blast
  have fits: "\<forall>t<length ?ds. layer_fits (?ds ! t) (hs ! t) (hs ! Suc t)" using b(3,5) by simp
  have nonneg: "\<forall>t\<le>length ?ds. 0 \<le> hs ! t" using pos b(3) len by simp
  have m: "length hs - 2 \<le> length ?ds" using b(3) by simp
  have l0: "length (act y0) = nat (hs ! 0)" using act y0(2) by simp
  obtain z k' where z: "forward_loop ?ds act dp r (map int [0..<length hs - 2]) (act y0, k)
        = Inr (z, k')" "length z = nat (hs ! (length hs - 2))"
    using forward_loop_ok [OF fits nonneg act _ m l0, of dp r k] by blast
  have rng: "py_range0 (int (length hs) - 1 - 1) = map int [0..<length hs - 2]"
    using len by (simp add: py_range0_def nat_diff_distrib')
  have oi: "int (length hs) - 1 - 1 = int (length hs - 2)" using len by simp
  have lt: "length hs - 2 < length ?ds" using b(3) len by simp
  have ol: "getattr_dense ?ds (int (length hs) - 1 - 1) = Inr (?ds ! (length hs - 2))"
    unfolding oi using lt by (rule getattr_dense_nat)
  have fit_last: "layer_fits (?ds ! (length hs - 2)) (hs ! (length hs - 2)) (hs ! Suc (length hs - 2))"
    using fits lt by blast
  have nn: "0 \<le> hs ! (length hs - 2)" using pos len by simp
  obtain out where out: "Linear_forward (?ds ! (length hs - 2)) z = Inr out"
      "length out = nat (hs ! Suc (length hs - 2))"
    using Linear_forward_ok [OF fit_last nn z(2)] by blast
  have "Suc (length hs - 2) = length hs - 1" using len by simp
  moreover have "hs \<noteq> []" using len by auto
  ultimately have "hs ! Suc (length hs - 2) = last hs"
    by (simp add: last_conv_nth)
  then have lo: "length out = nat (last hs)" using out(2) by simp
  have "Encoder_forward (e\<lparr>enc_dropout := dp\<rparr>) r (x, k) = Inr (out, k')"
    unfolding Encoder_forward_def using y0(1) z(1) rng ol out(1) b(1,2) by simp
  then show ?thesis using lo by blast
qed

lemma Decoder_forward_ok:
  assumes built: "decoder_built d isz hs dr act n"
    and len: "hs \<noteq> []" and pos: "\<forall>w\<in>set hs. 0 \<le> w" and isz: "0 \<le> isz"
    and act: "\<forall>v. length (act v) = length v"
    and x: "length x = nat (last hs)"
  shows "\<exists>y k'. Decoder_forward (d\<lparr>dec_dropout := dp\<rparr>) r (x, k) = Inr (y, k') \<and>
                 length y = nat isz"
proof -
  let ?ds = "dec_dense d"
  have b: "dec_activation d = act" "dec_n_layers d = int (length hs) - 1"
      "length ?ds = length hs - 1" "layer_fits (dec_output_layer d) (hs ! 0) isz"
      "\<forall>t<length hs - 1. layer_fits (?ds ! t) (rev hs ! t) (rev hs ! Suc t)"
    using built by (simp_all add: decoder_built_def)
  have fits: "\<forall>t<length ?ds. layer_fits (?ds ! t) (rev hs ! t) (rev hs ! Suc t)"
    using b(3,5) by simp
  have nonneg: "\<forall>t\<le>length ?ds. 0 \<le> rev hs ! t"
  proof (intro allI impI)
    fix t assume "t \<le> length ?ds"
    then have "t < length (rev hs)" using b(3) len by (cases hs) simp_all
    then have "rev hs ! t \<in> set (rev hs)" by (rule nth_mem)
    then show "0 \<le> rev hs ! t" using pos by simp
  qed
  have r0: "rev hs ! 0 = last hs" using len by (simp add: hd_rev flip: hd_conv_nth)
  have l0: "length x = nat (rev hs ! 0)" using x r0 by simp
  obtain z k' where z: "forward_loop ?ds act dp r (map int [0..<length ?ds]) (x, k)
        = Inr (z, k')" "length z = nat (rev hs ! length ?ds)"
    using forward_loop_ok [OF fits nonneg act _ _ l0, of "length ?ds" dp r k] by auto
  have rl: "rev hs ! length ?ds = hs ! 0"
    using len b(3) by (cases hs) (simp_all add: nth_append)
  have rng: "py_range0 (int (length hs) - 1) = map int [0..<length ?ds]"
    using b(3) by (simp add: py_range0_def nat_diff_distrib')
  have nn: "0 \<le> hs ! 0" using pos len by simp
  have lz: "length z = nat (hs ! 0)" using z(2) rl by simp
  obtain out where out: "Linear_forward (dec_output_layer d) z = Inr out"
      "length out = nat isz"
    using Linear_forward_ok [OF b(4) nn lz] by blast
  have "Decoder_forward (d\<lparr>dec_dropout := dp\<rparr>) r (x, k) = Inr (out, k')"
    unfolding Decoder_forward_def using z(1) rng out(1) b(1,2) by simp
  then show ?thesis using out(2) by blast
qed


lemma AutoEncoder_init_ok:
  assumes hs: "hs \<noteq> []" and pos: "\<forall>w\<in>set hs. 0 \<le> w" and isz: "0 \<le> isz"
    and dr: "0 \<le> dr" "dr \<le> 1"
  shows "\<exists>m. AutoEncoder_init g isz hs dr act n = Inr (m, n + 2 * length hs) \<and>
              encoder_built (encoder m) isz hs dr ReLU n \<and>
              decoder_built (decoder m) isz hs dr ReLU (n + length hs) \<and>
              ae_hidden_layers m = hs"
proof -
  obtain e where e: "Encoder_init g isz hs dr ReLU n = Inr (e, n + length hs)"
      "encoder_built e isz hs dr ReLU n"
    using Encoder_init_ok [OF hs pos isz dr] by blast
  have ef: "enc_hidden_layers e = hs" "enc_n_layers e = int (length hs) - 1"
      "enc_input_size e = isz" "enc_dropout_rate e = dr"
    using e(2) by (simp_all add: encoder_built_def)
  obtain d where d: "Decoder_init g e ReLU (n + length hs) = Inr (d, n + length hs + length hs)"
      "decoder_built d isz hs dr ReLU (n + length hs)"
    using Decoder_init_ok [OF hs pos isz dr ef] by blast
  show ?thesis
    unfolding AutoEncoder_init_def using e d by (simp add: mult_2)
qed

text \<open>
  C6. For every width schedule \<open>[w0, ..., wk]\<close> with \<open>k \<ge> 2\<close> and positive widths, a positive
  input width and a dropout rate the library accepts, the AutoEncoder is constructed, and for
  every input vector of length \<open>input_size\<close>, in training and in evaluation mode and for
  every random source, \<open>forward\<close> returns a pair whose reconstruction has the length of the
  input and whose embedding has the length given by the last width. The initial parameter
  values are arbitrary (any source \<open>g\<close>).
\<close>

theorem AutoEncoder_forward_shapes:
  assumes k: "length hidden_layers = Suc k" "2 \<le> k"
    and pos: "\<forall>w\<in>set hidden_layers. 0 < w" and isz: "0 < input_size"
    and dr: "0 \<le> dropout_rate" "dropout_rate \<le> 1"
    and x: "int (length x) = input_size"
  shows "\<exists>m n'. AutoEncoder_init g input_size hidden_layers dropout_rate act n = Inr (m, n') \<and>
           (\<forall>mode r c. \<exists>embedding reconstruction c'.
              AutoEncoder_forward (set_training mode m) r (x, c)
                = Inr ((embedding, reconstruction), c') \<and>
              length reconstruction = length x \<and>
              int (length embedding) = last hidden_layers)"
proof -
  have hs: "hidden_layers \<noteq> []" using k by auto
  have len: "2 \<le> length hidden_layers" using k by simp
  have pos0: "\<forall>w\<in>set hidden_layers. 0 \<le> w" using pos by auto
  have isz0: "0 \<le> input_size" using isz by simp
  have lx: "length x = nat input_size" using x by simp
  have lastpos: "0 \<le> last hidden_layers" using hs pos0 by simp
  obtain m where m:
      "AutoEncoder_init g input_size hidden_layers dropout_rate act n
         = Inr (m, n + 2 * length hidden_layers)"
      "encoder_built (encoder m) input_size hidden_layers dropout_rate ReLU n"
      "decoder_built (decoder m) input_size hidden_layers dropout_rate ReLU
         (n + length hidden_layers)"
    using AutoEncoder_init_ok [OF hs pos0 isz0 dr] by blast
  have relu: "\<forall>v. length (ReLU v) = length v" by (simp add: ReLU_length)
  have fw: "\<exists>embedding reconstruction c'.
              AutoEncoder_forward (set_training mode m) r (x, c)
                = Inr ((embedding, reconstruction), c') \<and>
              length reconstruction = length x \<and>
              int (length embedding) = last hidden_layers" for mode r c
  proof -
    let ?dpe = "(enc_dropout (encoder m))\<lparr>training := mode\<rparr>"
    let ?dpd = "(dec_dropout (decoder m))\<lparr>training := mode\<rparr>"
    obtain emb c1 where emb:
        "Encoder_forward ((encoder m)\<lparr>enc_dropout := ?dpe\<rparr>) r (x, c) = Inr (emb, c1)"
        "length emb = nat (last hidden_layers)"
      using Encoder_forward_ok [OF m(2) len pos0 isz0 relu lx] by blast
    obtain rec c2 where rec:
        "Decoder_forward ((decoder m)\<lparr>dec_dropout := ?dpd\<rparr>) r (emb, c1) = Inr (rec, c2)"
        "length rec = nat input_size"
      using Decoder_forward_ok [OF m(3) hs pos0 isz0 relu emb(2)] by blast
    have "AutoEncoder_forward (set_training mode m) r (x, c) = Inr ((emb, rec), c2)"
      unfolding AutoEncoder_forward_def set_training_def using emb(1) rec(1) by simp
    moreover have "length rec = length x" using rec(2) lx by simp
    moreover have "int (length emb) = last hidden_layers" using emb(2) lastpos by simp
    ultimately show ?thesis by blast
  qed
  show ?thesis using m(1) fw by blast
qed

text \<open>The theorem at the widths \<open>[3, 2, 1]\<close> and a two-feature input.\<close>

theorem AutoEncoder_forward_shapes_witness:
  "\<exists>m n'. AutoEncoder_init zero_init 2 [3, 2, 1] (1 / 5) ReLU 0 = Inr (m, n') \<and>
           (\<forall>mode r c. \<exists>embedding reconstruction c'.
              AutoEncoder_forward (set_training mode m) r ([5, 7], c)
                = Inr ((embedding, reconstruction), c') \<and>
              length reconstruction = length [5, 7 :: rat] \<and>
              int (length embedding) = last [3, 2, 1])"
  using AutoEncoder_forward_shapes [of "[3, 2, 1]" 2 2 "1 / 5" "[5, 7]" zero_init ReLU 0]
  by simp


subsection \<open>What the Encoder constructor accepts\<close>

lemma Encoder_init_empty: "Encoder_init g isz [] dr act n = Inl IndexError"
  by (simp add: Encoder_init_def py_index_def)

lemma Encoder_init_negative:
  assumes hs: "hs \<noteq> []" and neg: "isz < 0 \<or> (\<exists>w\<in>set hs. w < 0)"
  shows "Encoder_init g isz hs dr act n = Inl RuntimeError"
proof -
  have h0: "py_index hs 0 = Inr (hs ! 0)" using hs py_index_nat [of 0 hs] by simp
  show ?thesis
  proof (cases "isz < 0 \<or> hs ! 0 < 0")
    case True
    then show ?thesis
      unfolding Encoder_init_def using h0 Linear_init_neg [OF True] by simp
  next
    case False
    then obtain inp where inp: "Linear_init g isz (hs ! 0) n = Inr (inp, Suc n)"
      using Linear_init_ok [of isz "hs ! 0" g n] by auto
    obtain w where w: "w \<in> set hs" "w < 0" using neg False by auto
    then obtain t where t: "t < length hs" "hs ! t = w" by (auto simp add: in_set_conv_nth)
    have tpos: "0 < t" using t w False by (cases t) auto
    have m: "length hs - 1 < length hs" using hs by simp
    have j: "0 < length hs - 1" using tpos t by simp
    have "0 \<le> t \<and> t \<le> length hs - 1 \<and> hs ! t < 0" using t w by simp
    then have ex: "\<exists>t\<ge>0. t \<le> length hs - 1 \<and> hs ! t < 0" by blast
    have rng: "py_range0 (int (length hs) - 1) = map int [0..<length hs - 1]"
      by (simp add: py_range0_def nat_diff_distrib')
    have "dense_loop g hs (map int [0..<length hs - 1]) (Suc n) = Inl RuntimeError"
      using dense_loop_neg [OF m j ex] .
    then show ?thesis
      unfolding Encoder_init_def using h0 inp rng by simp
  qed
qed

lemma Encoder_init_bad_rate:
  assumes hs: "hs \<noteq> []" and pos: "\<forall>w\<in>set hs. 0 \<le> w" and isz: "0 \<le> isz"
    and dr: "dr < 0 \<or> 1 < dr"
  shows "Encoder_init g isz hs dr act n = Inl ValueError"
proof -
  have h0: "py_index hs 0 = Inr (hs ! 0)" using hs py_index_nat [of 0 hs] by simp
  have "0 \<le> hs ! 0" using hs pos by simp
  then obtain inp where inp: "Linear_init g isz (hs ! 0) n = Inr (inp, Suc n)"
    using Linear_init_ok [OF isz] by blast
  have m: "length hs - 1 < length hs" using hs by simp
  obtain ds where ds: "dense_loop g hs (map int [0..<length hs - 1]) (Suc n)
        = Inr (ds, Suc n + (length hs - 1 - 0))"
    using dense_loop_ok [OF m pos, of 0 g "Suc n"] by blast
  have rng: "py_range0 (int (length hs) - 1) = map int [0..<length hs - 1]"
    by (simp add: py_range0_def nat_diff_distrib')
  have dp: "Dropout_init dr = Inl ValueError" using dr by (auto simp add: Dropout_init_def)
  show ?thesis unfolding Encoder_init_def using h0 inp ds rng dp by simp
qed

lemma dense_loop_lib_Linear_init:
  "dense_loop_lib (Linear_init g) hs is n = dense_loop g hs is n"
  by (induction "is" arbitrary: n) simp_all

lemma Encoder_init_lib_agrees:
  "Encoder_init g input_size hidden_layers dropout_rate act n =
   Encoder_init_lib (Linear_init g) Dropout_init input_size hidden_layers dropout_rate act n"
  by (simp add: Encoder_init_def Encoder_init_lib_def dense_loop_lib_Linear_init)

lemma dense_loop_lib_layers:
  "k \<le> length hs - 1 \<Longrightarrow>
   dense_loop_lib new_linear hs (map int [k..<length hs - 1]) n =
   layers_lib new_linear (zip (drop k hs) (drop (Suc k) hs)) n"
proof (induction "length hs - 1 - k" arbitrary: k n)
  case 0
  then have "k = length hs - 1" by simp
  then show ?case by simp
next
  case (Suc d)
  then have k: "k < length hs - 1" and sk: "Suc k \<le> length hs - 1" and d: "d = length hs - 1 - Suc k"
    by auto
  have k1: "k < length hs" "Suc k < length hs" using k by auto
  have idx: "py_index hs (int k) = Inr (hs ! k)" "py_index hs (int k + 1) = Inr (hs ! Suc k)"
    using k1 by (simp_all add: py_index_nat py_index_nat_Suc)
  have dk: "drop k hs = hs ! k # drop (Suc k) hs" using k1(1) by (simp add: Cons_nth_drop_Suc)
  have dsk: "drop (Suc k) hs = hs ! Suc k # drop (Suc (Suc k)) hs"
    using k1(2) by (simp add: Cons_nth_drop_Suc)
  have z: "zip (drop k hs) (drop (Suc k) hs) =
      (hs ! k, hs ! Suc k) # zip (drop (Suc k) hs) (drop (Suc (Suc k)) hs)"
    using dk dsk by simp
  have ih: "dense_loop_lib new_linear hs (map int [Suc k..<length hs - 1]) n' =
      layers_lib new_linear (zip (drop (Suc k) hs) (drop (Suc (Suc k)) hs)) n'" for n'
    using Suc.hyps(1) [OF d sk] .
  have up: "[k..<length hs - 1] = k # [Suc k..<length hs - 1]" using k by (simp add: upt_conv_Cons)
  show ?case unfolding up z using idx ih by simp
qed

lemma layer_sizes_Cons:
  "hs \<noteq> [] \<Longrightarrow> layer_sizes isz hs = (isz, hs ! 0) # zip hs (drop (Suc 0) hs)"
  unfolding layer_sizes_def by (cases hs) simp_all

lemma Encoder_init_lib_layers:
  assumes hs: "hs \<noteq> []"
  shows "Encoder_init_lib new_linear new_dropout isz hs dr act n =
     ebind (layers_lib new_linear (layer_sizes isz hs) n) (\<lambda>(ls, n').
     ebind (new_dropout dr) (\<lambda>d.
     Inr (\<lparr>enc_input_layer = hd ls, enc_dense = tl ls, enc_n_layers = int (length (tl ls)),
           enc_activation = act, enc_hidden_layers = hs,
           enc_dropout = d, enc_dropout_rate = dr, enc_input_size = isz\<rparr>, n')))"
proof -
  have h0: "py_index hs 0 = Inr (hs ! 0)" using hs py_index_nat [of 0 hs] by simp
  have rng: "py_range0 (int (length hs) - 1) = map int [0..<length hs - 1]"
    by (simp add: py_range0_def nat_diff_distrib')
  have loop: "dense_loop_lib new_linear hs (map int [0..<length hs - 1]) n1 =
      layers_lib new_linear (zip hs (drop (Suc 0) hs)) n1" for n1
    using dense_loop_lib_layers [of 0 hs new_linear n1] by simp
  show ?thesis
  proof (cases "new_linear isz (hs ! 0) n")
    case (Inl err)
    then show ?thesis
      unfolding Encoder_init_lib_def layer_sizes_Cons [OF hs] using h0 by simp
  next
    case (Inr v)
    obtain inp n1 where v: "v = (inp, n1)" by (cases v)
    show ?thesis
    proof (cases "layers_lib new_linear (zip hs (drop (Suc 0) hs)) n1")
      case (Inl err)
      then show ?thesis
        unfolding Encoder_init_lib_def layer_sizes_Cons [OF hs] using h0 Inr v rng loop by simp
    next
      case (Inr w)
      obtain ds n2 where w: "w = (ds, n2)" by (cases w)
      show ?thesis
        unfolding Encoder_init_lib_def layer_sizes_Cons [OF hs]
        using h0 \<open>new_linear isz (hs ! 0) n = Inr v\<close> v rng loop Inr w by simp
    qed
  qed
qed

lemma layers_lib_length:
  "layers_lib new_linear ps n = Inr (ls, n') \<Longrightarrow> length ls = length ps"
proof (induction ps arbitrary: n ls n')
  case Nil
  then show ?case by simp
next
  case (Cons ab rest)
  then obtain l n1 ls1 where
    "new_linear (fst ab) (snd ab) n = Inr (l, n1)"
    "layers_lib new_linear rest n1 = Inr (ls1, n')" "ls = l # ls1"
    by (auto simp add: ebind_eq_Inr)
  then show ?case using Cons.IH by simp
qed

lemma layer_sizes_length: "length (layer_sizes isz hs) = length hs"
  by (simp add: layer_sizes_def)

text \<open>
  C3 (as the code behaves). The Encoder constructor validates nothing itself and raises no
  error of its own. With the library as a parameter: an empty width sequence fails with
  IndexError at \<^verbatim>\<open>hidden_layers[0]\<close>, before the library is called; otherwise the layers
  \<open>input_size\<close> to the first width and each width to the next are asked of the library in
  this order, and if the library refuses one of them the constructor fails with the library's
  error; if all are built and the library refuses the dropout rate, the constructor fails with
  that error; and if the library accepts the layers and the rate, the Encoder is constructed
  from exactly these layers, with one dense layer fewer than widths, whatever the length of
  the sequence and whatever the widths. \<open>Encoder_init\<close> is the instance at the modelled
  library, which refuses a negative size: there a negative input size or width makes the
  construction fail.
\<close>

theorem Encoder_init_outcome:
  "Encoder_init g input_size hidden_layers dropout_rate act n =
     Encoder_init_lib (Linear_init g) Dropout_init input_size hidden_layers dropout_rate act n \<and>
   (hidden_layers = [] \<longrightarrow>
      Encoder_init_lib new_linear new_dropout input_size hidden_layers dropout_rate act n
        = Inl IndexError) \<and>
   (hidden_layers \<noteq> [] \<and>
    layers_lib new_linear (layer_sizes input_size hidden_layers) n = Inl err \<longrightarrow>
      Encoder_init_lib new_linear new_dropout input_size hidden_layers dropout_rate act n
        = Inl err) \<and>
   (hidden_layers \<noteq> [] \<and>
    layers_lib new_linear (layer_sizes input_size hidden_layers) n = Inr (ls, n') \<and>
    new_dropout dropout_rate = Inl err \<longrightarrow>
      Encoder_init_lib new_linear new_dropout input_size hidden_layers dropout_rate act n
        = Inl err) \<and>
   (hidden_layers \<noteq> [] \<and>
    layers_lib new_linear (layer_sizes input_size hidden_layers) n = Inr (ls, n') \<and>
    new_dropout dropout_rate = Inr d \<longrightarrow>
      Encoder_init_lib new_linear new_dropout input_size hidden_layers dropout_rate act n
        = Inr (\<lparr>enc_input_layer = hd ls, enc_dense = tl ls,
                 enc_n_layers = int (length hidden_layers) - 1,
                 enc_activation = act, enc_hidden_layers = hidden_layers,
                 enc_dropout = d, enc_dropout_rate = dropout_rate,
                 enc_input_size = input_size\<rparr>, n')) \<and>
   (hidden_layers \<noteq> [] \<and> (input_size < 0 \<or> (\<exists>w\<in>set hidden_layers. w < 0)) \<longrightarrow>
      isl (Encoder_init g input_size hidden_layers dropout_rate act n))"
proof (intro conjI impI)
  show "Encoder_init g input_size hidden_layers dropout_rate act n =
     Encoder_init_lib (Linear_init g) Dropout_init input_size hidden_layers dropout_rate act n"
    by (rule Encoder_init_lib_agrees)
next
  assume "hidden_layers = []"
  then show "Encoder_init_lib new_linear new_dropout input_size hidden_layers dropout_rate act n
        = Inl IndexError"
    by (simp add: Encoder_init_lib_def py_index_def)
next
  assume a: "hidden_layers \<noteq> [] \<and>
    layers_lib new_linear (layer_sizes input_size hidden_layers) n = Inl err"
  then have hs: "hidden_layers \<noteq> []" by simp
  show "Encoder_init_lib new_linear new_dropout input_size hidden_layers dropout_rate act n
        = Inl err"
    unfolding Encoder_init_lib_layers [OF hs] using a by simp
next
  assume a: "hidden_layers \<noteq> [] \<and>
    layers_lib new_linear (layer_sizes input_size hidden_layers) n = Inr (ls, n') \<and>
    new_dropout dropout_rate = Inl err"
  then have hs: "hidden_layers \<noteq> []" by simp
  show "Encoder_init_lib new_linear new_dropout input_size hidden_layers dropout_rate act n
        = Inl err"
    unfolding Encoder_init_lib_layers [OF hs] using a by simp
next
  assume a: "hidden_layers \<noteq> [] \<and>
    layers_lib new_linear (layer_sizes input_size hidden_layers) n = Inr (ls, n') \<and>
    new_dropout dropout_rate = Inr d"
  then have hs: "hidden_layers \<noteq> []" by simp
  have "length ls = length hidden_layers"
    using a layers_lib_length [of new_linear "layer_sizes input_size hidden_layers" n ls n']
    by (simp add: layer_sizes_length)
  then have len: "int (length (tl ls)) = int (length hidden_layers) - 1"
    using hs by (cases hidden_layers) simp_all
  show "Encoder_init_lib new_linear new_dropout input_size hidden_layers dropout_rate act n
        = Inr (\<lparr>enc_input_layer = hd ls, enc_dense = tl ls,
                 enc_n_layers = int (length hidden_layers) - 1,
                 enc_activation = act, enc_hidden_layers = hidden_layers,
                 enc_dropout = d, enc_dropout_rate = dropout_rate,
                 enc_input_size = input_size\<rparr>, n')"
    unfolding Encoder_init_lib_layers [OF hs] using a len by simp
next
  assume "hidden_layers \<noteq> [] \<and> (input_size < 0 \<or> (\<exists>w\<in>set hidden_layers. w < 0))"
  then have "Encoder_init g input_size hidden_layers dropout_rate act n = Inl RuntimeError"
    using Encoder_init_negative by blast
  then show "isl (Encoder_init g input_size hidden_layers dropout_rate act n)" by simp
qed

text \<open>
  The outcomes at concrete arguments: the empty sequence, a negative width, a width beyond
  the 64-bit range with a library that refuses it, a dropout rate of 2, and the single width
  \<open>[1]\<close>, which is accepted.
\<close>

theorem Encoder_init_outcome_witness:
  "Encoder_init zero_init 4 [3] (1 / 5) ReLU 0 =
     Encoder_init_lib (Linear_init zero_init) Dropout_init 4 [3] (1 / 5) ReLU 0 \<and>
   Encoder_init_lib (Linear_init zero_init) Dropout_init 4 [] (1 / 5) ReLU 0 = Inl IndexError \<and>
   layers_lib (Linear_init zero_init) (layer_sizes 4 [3, - 1, 2]) 0 = Inl RuntimeError \<and>
   Encoder_init_lib (Linear_init zero_init) Dropout_init 4 [3, - 1, 2] (1 / 5) ReLU 0
     = Inl RuntimeError \<and>
   layers_lib (Linear_init_int64 zero_init) (layer_sizes 4 [2 ^ 63]) 0 = Inl TypeError \<and>
   Encoder_init_lib (Linear_init_int64 zero_init) Dropout_init 4 [2 ^ 63] (1 / 5) ReLU 0
     = Inl TypeError \<and>
   Dropout_init 2 = Inl ValueError \<and>
   Encoder_init_lib (Linear_init zero_init) Dropout_init 2 [1] 2 ReLU 0 = Inl ValueError \<and>
   Dropout_init (1 / 5) = Inr \<lparr>p = 1 / 5, training = True\<rparr> \<and>
   layers_lib (Linear_init zero_init) (layer_sizes 2 [1]) 0
     = Inr ([\<lparr>in_features = 2, out_features = 1, param_id = 0,
               weight = [[0, 0]], bias = [0]\<rparr>], 1) \<and>
   Encoder_init_lib (Linear_init zero_init) Dropout_init 2 [1] (1 / 5) ReLU 0
     = Inr (\<lparr>enc_input_layer = \<lparr>in_features = 2, out_features = 1, param_id = 0,
                                  weight = [[0, 0]], bias = [0]\<rparr>,
              enc_dense = [], enc_n_layers = 0,
              enc_activation = ReLU, enc_hidden_layers = [1],
              enc_dropout = \<lparr>p = 1 / 5, training = True\<rparr>, enc_dropout_rate = 1 / 5,
              enc_input_size = 2\<rparr>, 1) \<and>
   isl (Encoder_init zero_init 4 [3, - 1, 2] (1 / 5) ReLU 0)"
proof -
  let ?l = "\<lparr>in_features = 2, out_features = 1, param_id = 0,
               weight = [[0, 0 :: rat]], bias = [0 :: rat]\<rparr>"
  have up: "[0..<2] = [0, Suc 0]" "[0..<3] = [0, Suc 0, 2]" "[0..<4] = [0, Suc 0, 2, 3]"
    by (simp_all add: upt_rec)
  have r1: "layers_lib (Linear_init zero_init) (layer_sizes 4 [3, - 1, 2]) 0 = Inl RuntimeError"
    by (simp add: layer_sizes_def Linear_init_def)
  have r2: "layers_lib (Linear_init_int64 zero_init) (layer_sizes 4 [2 ^ 63]) 0 = Inl TypeError"
    by (simp add: layer_sizes_def Linear_init_int64_def)
  have r3: "layers_lib (Linear_init zero_init) (layer_sizes 2 [1]) 0 = Inr ([?l], 1)"
    by (simp add: layer_sizes_def Linear_init_def zero_init_def up)
  have d1: "Dropout_init 2 = Inl ValueError" by (simp add: Dropout_init_def)
  have d2: "Dropout_init (1 / 5) = Inr \<lparr>p = 1 / 5, training = True\<rparr>"
    by (simp add: Dropout_init_def)
  have c0: "Encoder_init zero_init 4 [3] (1 / 5) ReLU 0 =
     Encoder_init_lib (Linear_init zero_init) Dropout_init 4 [3] (1 / 5) ReLU 0"
    using Encoder_init_outcome [where g = zero_init and input_size = 4
        and hidden_layers = "[3]" and dropout_rate = "1 / 5" and act = ReLU and n = 0,
        THEN conjunct1] .
  have c1: "Encoder_init_lib (Linear_init zero_init) Dropout_init 4 [] (1 / 5) ReLU 0
      = Inl IndexError"
    using Encoder_init_outcome [where new_linear = "Linear_init zero_init"
        and new_dropout = Dropout_init and input_size = 4
        and hidden_layers = "[]" and dropout_rate = "1 / 5" and act = ReLU and n = 0]
    by blast
  have c2: "Encoder_init_lib (Linear_init zero_init) Dropout_init 4 [3, - 1, 2] (1 / 5) ReLU 0
      = Inl RuntimeError"
    using r1 Encoder_init_outcome [where new_linear = "Linear_init zero_init"
        and new_dropout = Dropout_init and input_size = 4
        and hidden_layers = "[3, - 1, 2]" and dropout_rate = "1 / 5" and act = ReLU and n = 0
        and err = RuntimeError]
    by blast
  have c3: "Encoder_init_lib (Linear_init_int64 zero_init) Dropout_init 4 [2 ^ 63] (1 / 5) ReLU 0
      = Inl TypeError"
    using r2 Encoder_init_outcome [where new_linear = "Linear_init_int64 zero_init"
        and new_dropout = Dropout_init and input_size = 4
        and hidden_layers = "[2 ^ 63]" and dropout_rate = "1 / 5" and act = ReLU and n = 0
        and err = TypeError]
    by blast
  have c4: "Encoder_init_lib (Linear_init zero_init) Dropout_init 2 [1] 2 ReLU 0 = Inl ValueError"
    using r3 d1 Encoder_init_outcome [where new_linear = "Linear_init zero_init"
        and new_dropout = Dropout_init and input_size = 2
        and hidden_layers = "[1]" and dropout_rate = 2 and act = ReLU and n = 0
        and err = ValueError and ls = "[?l]" and n' = 1]
    by blast
  have c5: "Encoder_init_lib (Linear_init zero_init) Dropout_init 2 [1] (1 / 5) ReLU 0
     = Inr (\<lparr>enc_input_layer = ?l,
              enc_dense = [], enc_n_layers = 0,
              enc_activation = ReLU, enc_hidden_layers = [1],
              enc_dropout = \<lparr>p = 1 / 5, training = True\<rparr>, enc_dropout_rate = 1 / 5,
              enc_input_size = 2\<rparr>, 1)"
    using r3 d2 Encoder_init_outcome [where new_linear = "Linear_init zero_init"
        and new_dropout = Dropout_init and input_size = 2
        and hidden_layers = "[1]" and dropout_rate = "1 / 5" and act = ReLU and n = 0
        and ls = "[?l]" and n' = 1 and d = "\<lparr>p = 1 / 5, training = True\<rparr>"]
    by simp
  have c6: "isl (Encoder_init zero_init 4 [3, - 1, 2] (1 / 5) ReLU 0)"
    using Encoder_init_outcome [where g = zero_init and input_size = 4
        and hidden_layers = "[3, - 1, 2]" and dropout_rate = "1 / 5" and act = ReLU and n = 0,
        THEN conjunct2, THEN conjunct2, THEN conjunct2, THEN conjunct2, THEN conjunct2]
    by simp
  show ?thesis using c0 c1 r1 c2 r2 c3 d1 c4 d2 r3 c5 c6 by blast
qed

text \<open>
  The width sequence \<open>[10]\<close> is accepted at construction: no error is raised and a model
  is created.
\<close>

theorem Encoder_accepts_single_width:
  "\<not> isl (Encoder_init zero_init 784 [10] (1 / 5) ReLU 0)"
proof -
  obtain e where "Encoder_init zero_init 784 [10] (1 / 5) ReLU 0 = Inr (e, 0 + length [10 :: int])"
    using Encoder_init_ok [of "[10]" 784 "1 / 5" zero_init ReLU 0] by auto
  then show ?thesis by simp
qed


subsection \<open>The Decoder mirrors the Encoder\<close>

lemma Decoder_init_reverses:
  "Decoder_init g e act n = Inr (d, n') \<Longrightarrow> dec_hidden_layers d = rev (enc_hidden_layers e)"
  by (auto simp add: Decoder_init_def Let_def ebind_eq_Inr)

lemma two_elems: "length xs = 2 \<Longrightarrow> xs = [xs ! 0, xs ! 1]"
  by (cases xs; cases "tl xs") auto

lemma decoder_built_three:
  assumes "decoder_built d isz [a, b, c] dr act n"
  shows "dec_hidden_layers d = [c, b, a]"
    and "Decoder_topology d = [(c, b), (b, a), (a, isz)]"
    and "Decoder_param_ids d = {n, Suc n, Suc (Suc n)}"
proof -
  have len: "length (dec_dense d) = 2" using assms by (simp add: decoder_built_def)
  have l0: "layer_fits (dec_dense d ! 0) c b" "param_id (dec_dense d ! 0) = n"
    using assms by (auto simp add: decoder_built_def)
  have every: "\<forall>t<2. layer_fits (dec_dense d ! t) ([c, b, a] ! t) ([c, b, a] ! Suc t) \<and>
        param_id (dec_dense d ! t) = n + t"
    using assms by (simp add: decoder_built_def)
  have "layer_fits (dec_dense d ! 1) ([c, b, a] ! 1) ([c, b, a] ! Suc 1) \<and>
        param_id (dec_dense d ! 1) = n + 1"
    using every [rule_format, of 1] by simp
  then have l1: "layer_fits (dec_dense d ! 1) b a" "param_id (dec_dense d ! 1) = Suc n"
    by simp_all
  have lo: "layer_fits (dec_output_layer d) a isz" "param_id (dec_output_layer d) = Suc (Suc n)"
    using assms by (auto simp add: decoder_built_def)
  have ds: "dec_dense d = [dec_dense d ! 0, dec_dense d ! 1]" using len by (rule two_elems)
  show "dec_hidden_layers d = [c, b, a]" using assms by (simp add: decoder_built_def)
  show "Decoder_topology d = [(c, b), (b, a), (a, isz)]"
    unfolding Decoder_topology_def
    by (subst ds) (use l0 l1 lo in \<open>simp add: Linear_shape_def layer_fits_def\<close>)
  show "Decoder_param_ids d = {n, Suc n, Suc (Suc n)}"
    unfolding Decoder_param_ids_def
    by (subst ds) (use l0 l1 lo in \<open>simp\<close>)
qed

lemma mirrored_decoders_ok:
  assumes a: "0 < a \<and> 0 < b \<and> 0 < c \<and> 0 < input_size \<and> 0 \<le> dropout_rate \<and> dropout_rate \<le> 1"
  shows "\<exists>d1 d2. mirrored_decoders g input_size a b c dropout_rate n = Inr (d1, d2) \<and>
         dec_hidden_layers d1 = [c, b, a] \<and> dec_hidden_layers d2 = [a, b, c] \<and>
         dec_hidden_layers d1 = rev (dec_hidden_layers d2) \<and>
         Decoder_topology d1 = [(c, b), (b, a), (a, input_size)] \<and>
         Decoder_topology d2 = [(a, b), (b, c), (c, input_size)] \<and>
         (Decoder_topology d1 = Decoder_topology d2 \<longleftrightarrow> a = c) \<and>
         Decoder_param_ids d1 \<inter> Decoder_param_ids d2 = {}"
proof -
  have p1: "\<forall>w\<in>set [a, b, c]. 0 \<le> w" and p2: "\<forall>w\<in>set [c, b, a]. 0 \<le> w"
    and isz: "0 \<le> input_size" and dr: "0 \<le> dropout_rate" "dropout_rate \<le> 1"
    using a by auto
  obtain e1 where e1: "Encoder_init g input_size [a, b, c] dropout_rate ReLU n
        = Inr (e1, n + length [a, b, c])"
      "encoder_built e1 input_size [a, b, c] dropout_rate ReLU n"
    using Encoder_init_ok [OF _ p1 isz dr] by blast
  obtain e2 where e2: "Encoder_init g input_size [c, b, a] dropout_rate ReLU (n + 3)
        = Inr (e2, n + 3 + length [c, b, a])"
      "encoder_built e2 input_size [c, b, a] dropout_rate ReLU (n + 3)"
    using Encoder_init_ok [OF _ p2 isz dr] by blast
  have f1: "enc_hidden_layers e1 = [a, b, c]" "enc_n_layers e1 = int (length [a, b, c]) - 1"
      "enc_input_size e1 = input_size" "enc_dropout_rate e1 = dropout_rate"
    using e1(2) by (simp_all add: encoder_built_def)
  have f2: "enc_hidden_layers e2 = [c, b, a]" "enc_n_layers e2 = int (length [c, b, a]) - 1"
      "enc_input_size e2 = input_size" "enc_dropout_rate e2 = dropout_rate"
    using e2(2) by (simp_all add: encoder_built_def)
  obtain d1 where d1: "Decoder_init g e1 ReLU (n + 6) = Inr (d1, n + 6 + length [a, b, c])"
      "decoder_built d1 input_size [a, b, c] dropout_rate ReLU (n + 6)"
    using Decoder_init_ok [OF _ p1 isz dr f1] by blast
  obtain d2 where d2: "Decoder_init g e2 ReLU (n + 9) = Inr (d2, n + 9 + length [c, b, a])"
      "decoder_built d2 input_size [c, b, a] dropout_rate ReLU (n + 9)"
    using Decoder_init_ok [OF _ p2 isz dr f2] by blast
  have run: "mirrored_decoders g input_size a b c dropout_rate n = Inr (d1, d2)"
    unfolding mirrored_decoders_def using e1(1) e2(1) d1(1) d2(1)
    by (simp add: numeral_eq_Suc)
  note t1 = decoder_built_three [OF d1(2)]
  note t2 = decoder_built_three [OF d2(2)]
  have disj: "Decoder_param_ids d1 \<inter> Decoder_param_ids d2 = {}"
    unfolding t1(3) t2(3) by auto
  have same: "Decoder_topology d1 = Decoder_topology d2 \<longleftrightarrow> a = c"
    unfolding t1(2) t2(2) by auto
  show ?thesis
    using run t1(1,2) t2(1,2) same disj by (intro exI [of _ d1] exI [of _ d2]) simp
qed

text \<open>
  C7 (as the code behaves). The Decoder constructor takes the Encoder and no widths; the
  width sequence of the Decoder it returns is the reverse of the Encoder's. The Decoders built
  from Encoders with the widths \<open>[a, b, c]\<close> and \<open>[c, b, a]\<close> have the width sequences
  \<open>[c, b, a]\<close> and \<open>[a, b, c]\<close>, each the reverse of the other; their topologies are the same
  exactly when \<open>a = c\<close>; and no parameter object belongs to both.
\<close>

theorem Decoder_mirrors_Encoder:
  "(Decoder_init g e act n = Inr (d, n') \<longrightarrow>
      dec_hidden_layers d = rev (enc_hidden_layers e)) \<and>
   (0 < a \<and> 0 < b \<and> 0 < c \<and> 0 < input_size \<and> 0 \<le> dropout_rate \<and> dropout_rate \<le> 1 \<longrightarrow>
      (\<exists>d1 d2. mirrored_decoders g input_size a b c dropout_rate n = Inr (d1, d2) \<and>
         dec_hidden_layers d1 = [c, b, a] \<and> dec_hidden_layers d2 = [a, b, c] \<and>
         dec_hidden_layers d1 = rev (dec_hidden_layers d2) \<and>
         Decoder_topology d1 = [(c, b), (b, a), (a, input_size)] \<and>
         Decoder_topology d2 = [(a, b), (b, c), (c, input_size)] \<and>
         (Decoder_topology d1 = Decoder_topology d2 \<longleftrightarrow> a = c) \<and>
         Decoder_param_ids d1 \<inter> Decoder_param_ids d2 = {}))"
  using Decoder_init_reverses [of g e act n d n']
    mirrored_decoders_ok [of a b c input_size dropout_rate g n]
  by blast

text \<open>
  With \<open>a = 1\<close>, \<open>b = 2\<close>, \<open>c = 3\<close> and four input features the two Decoders do not have
  the same topology.
\<close>

theorem mirrored_decoders_differ:
  "map_sum id (map_prod Decoder_topology Decoder_topology)
     (mirrored_decoders zero_init 4 1 2 3 (1 / 5) 0)
   = Inr ([(3, 2), (2, 1), (1, 4)], [(1, 2), (2, 3), (3, 4)])"
  using mirrored_decoders_ok [of 1 2 3 4 "1 / 5" zero_init 0] by auto

text \<open>The theorem at one Decoder and at the pair with \<open>a = 1\<close>, \<open>b = 2\<close>, \<open>c = 3\<close>.\<close>


theorem Decoder_mirrors_Encoder_witness:
  "(\<exists>e d. Decoder_init zero_init e ReLU 3 = Inr (d, 6) \<and>
      dec_hidden_layers d = rev (enc_hidden_layers e)) \<and>
   (\<exists>d1 d2. mirrored_decoders zero_init 4 1 2 3 (1 / 5) 0 = Inr (d1, d2) \<and>
      dec_hidden_layers d1 = [3, 2, 1] \<and> dec_hidden_layers d2 = [1, 2, 3] \<and>
      Decoder_topology d1 \<noteq> Decoder_topology d2 \<and>
      Decoder_param_ids d1 \<inter> Decoder_param_ids d2 = {})"
proof -
  have p1: "\<forall>w\<in>set [1, 2, 3 :: int]. 0 \<le> w" by simp
  obtain e where e: "Encoder_init zero_init 4 [1, 2, 3] (1 / 5) ReLU 0
        = Inr (e, 0 + length [1, 2, 3 :: int])"
      "encoder_built e 4 [1, 2, 3] (1 / 5) ReLU 0"
    using Encoder_init_ok [OF _ p1, of 4 "1 / 5" zero_init ReLU 0] by auto
  have f: "enc_hidden_layers e = [1, 2, 3]" "enc_n_layers e = int (length [1, 2, 3 :: int]) - 1"
      "enc_input_size e = 4" "enc_dropout_rate e = 1 / 5"
    using e(2) by (simp_all add: encoder_built_def)
  obtain d where d: "Decoder_init zero_init e ReLU 3 = Inr (d, 3 + length [1, 2, 3 :: int])"
    using Decoder_init_ok [OF _ p1 _ _ _ f, of zero_init ReLU 3] by auto
  then have d6: "Decoder_init zero_init e ReLU 3 = Inr (d, 6)" by simp
  have first: "\<exists>e d. Decoder_init zero_init e ReLU 3 = Inr (d, 6) \<and>
      dec_hidden_layers d = rev (enc_hidden_layers e)"
    using d6 Decoder_mirrors_Encoder [where g = zero_init and e = e and act = ReLU and n = 3
        and d = d and n' = 6]
    by blast
  have second: "\<exists>d1 d2. mirrored_decoders zero_init 4 1 2 3 (1 / 5) 0 = Inr (d1, d2) \<and>
      dec_hidden_layers d1 = [3, 2, 1] \<and> dec_hidden_layers d2 = [1, 2, 3] \<and>
      Decoder_topology d1 \<noteq> Decoder_topology d2 \<and>
      Decoder_param_ids d1 \<inter> Decoder_param_ids d2 = {}"
    using Decoder_mirrors_Encoder [where g = zero_init and a = 1 and b = 2 and c = 3
        and input_size = 4 and dropout_rate = "1 / 5" and n = 0 and e = e and act = ReLU
        and d = d and n' = 6]
    by auto
  show ?thesis using first second by blast
qed


subsection \<open>The activation argument of the AutoEncoder\<close>

lemma Encoder_init_activation:
  "Encoder_init g input_size hidden_layers dropout_rate act n = Inr (e, n') \<Longrightarrow>
   enc_activation e = act"
  by (auto simp add: Encoder_init_def ebind_eq_Inr)

lemma Decoder_init_activation:
  "Decoder_init g e act n = Inr (d, n') \<Longrightarrow> dec_activation d = act"
  by (auto simp add: Decoder_init_def Let_def ebind_eq_Inr)

text \<open>
  C9. Whatever activation is passed to the AutoEncoder constructor, the model built is the one
  built with the default: the argument is not forwarded, the Encoder and the Decoder hold ReLU,
  and with the same initial parameters the forward pass gives the same result on every input.
\<close>

theorem AutoEncoder_activation_ignored:
  "AutoEncoder_init g input_size hidden_layers dropout_rate act n =
     AutoEncoder_init g input_size hidden_layers dropout_rate ReLU n \<and>
   (case AutoEncoder_init g input_size hidden_layers dropout_rate act n of
      Inl e \<Rightarrow> True
    | Inr (m, n') \<Rightarrow>
        enc_activation (encoder m) = ReLU \<and> dec_activation (decoder m) = ReLU) \<and>
   ebind (AutoEncoder_init g input_size hidden_layers dropout_rate act n)
     (\<lambda>(m, n'). AutoEncoder_forward m r xk) =
   ebind (AutoEncoder_init g input_size hidden_layers dropout_rate ReLU n)
     (\<lambda>(m, n'). AutoEncoder_forward m r xk)"
proof -
  have same: "AutoEncoder_init g input_size hidden_layers dropout_rate act n =
     AutoEncoder_init g input_size hidden_layers dropout_rate ReLU n"
    by (simp add: AutoEncoder_init_def)
  have relu: "enc_activation (encoder m) = ReLU \<and> dec_activation (decoder m) = ReLU"
    if "AutoEncoder_init g input_size hidden_layers dropout_rate act n = Inr (m, n')" for m n'
  proof -
    from that obtain enc n1 dec where
      e: "Encoder_init g input_size hidden_layers dropout_rate ReLU n = Inr (enc, n1)" and
      d: "Decoder_init g enc ReLU n1 = Inr (dec, n')" and
      m: "m = \<lparr>encoder = enc, decoder = dec, ae_hidden_layers = hidden_layers\<rparr>"
      unfolding AutoEncoder_init_def by (auto simp add: ebind_eq_Inr)
    show ?thesis
      using Encoder_init_activation [OF e] Decoder_init_activation [OF d] m by simp
  qed
  have held: "(case AutoEncoder_init g input_size hidden_layers dropout_rate act n of
      Inl e \<Rightarrow> True
    | Inr (m, n') \<Rightarrow>
        enc_activation (encoder m) = ReLU \<and> dec_activation (decoder m) = ReLU)"
    using relu by (cases "AutoEncoder_init g input_size hidden_layers dropout_rate act n") auto
  show ?thesis using same held by simp
qed

section \<open>Properties of the training cells\<close>

subsection \<open>Traces\<close>

lemma forward_modes_append: "forward_modes (xs @ ys) = forward_modes xs @ forward_modes ys"
  by (simp add: forward_modes_def)

lemma step_rates_append: "step_rates (xs @ ys) = step_rates xs @ step_rates ys"
  by (simp add: step_rates_def)

lemma scheduler_steps_append: "scheduler_steps (xs @ ys) = scheduler_steps xs @ scheduler_steps ys"
  by (simp add: scheduler_steps_def)

lemma saved_paths_append: "saved_paths (xs @ ys) = saved_paths xs @ saved_paths ys"
  by (simp add: saved_paths_def)

lemmas trace_append = forward_modes_append step_rates_append scheduler_steps_append
  saved_paths_append

lemma batch_events_Suc: "batch_events md q (Suc n) =
    [ForwardPass (fst md) (snd md), OptimizerStep q] @ batch_events md q n"
  by (simp add: batch_events_def)

lemma batch_events_0: "batch_events md q 0 = []"
  by (simp add: batch_events_def)

lemma batch_events_observed:
  "forward_modes (batch_events md q n) = replicate n md"
  "step_rates (batch_events md q n) = replicate n q"
  "scheduler_steps (batch_events md q n) = []"
  "saved_paths (batch_events md q n) = []"
  by (induction n)
     (simp_all add: batch_events_Suc batch_events_0 trace_append,
      simp_all add: forward_modes_def step_rates_def scheduler_steps_def saved_paths_def)

lemma batch_events_add:
  "batch_events md q (m + n) = batch_events md q m @ batch_events md q n"
  by (simp add: batch_events_def replicate_add)

subsection \<open>Evaluation mode draws no random sample\<close>

lemma forward_loop_cursor:
  "\<not> training dp \<Longrightarrow> forward_loop ds act dp r js xk = Inr yk \<Longrightarrow> snd yk = snd xk"
proof (induction js arbitrary: xk)
  case Nil
  then show ?case by simp
next
  case (Cons i js)
  from Cons.prems(2) obtain l y where
    step: "forward_loop ds act dp r js (Dropout_forward dp r (act y, snd xk)) = Inr yk"
    by (auto simp add: ebind_eq_Inr)
  have "Dropout_forward dp r (act y, snd xk) = (act y, snd xk)"
    using Cons.prems(1) by (rule Dropout_forward_eval)
  then show ?case using Cons.IH [OF Cons.prems(1) step] by simp
qed

lemma Encoder_forward_cursor:
  "\<not> training (enc_dropout e) \<Longrightarrow> Encoder_forward e r xk = Inr yk \<Longrightarrow> snd yk = snd xk"
  unfolding Encoder_forward_def
  by (auto simp add: ebind_eq_Inr dest: forward_loop_cursor)

lemma Decoder_forward_cursor:
  "\<not> training (dec_dropout d) \<Longrightarrow> Decoder_forward d r xk = Inr yk \<Longrightarrow> snd yk = snd xk"
  unfolding Decoder_forward_def
  by (auto simp add: ebind_eq_Inr dest: forward_loop_cursor)

lemma AutoEncoder_forward_cursor:
  "model_mode m = (False, False) \<Longrightarrow> AutoEncoder_forward m r xk = Inr (y, k) \<Longrightarrow> k = snd xk"
  unfolding AutoEncoder_forward_def model_mode_def
  by (auto simp add: ebind_eq_Inr dest!: Encoder_forward_cursor Decoder_forward_cursor)

lemma forward_batch_cursor:
  "model_mode m = (False, False) \<Longrightarrow> forward_batch m r X k = Inr (ys, k') \<Longrightarrow> k' = k"
proof (induction X arbitrary: k ys)
  case Nil
  then show ?case by simp
next
  case (Cons x X)
  from Cons.prems(2) obtain y k1 zs where
    a: "AutoEncoder_forward m r (x, k) = Inr (y, k1)" and b: "forward_batch m r X k1 = Inr (zs, k')"
    by (auto simp add: ebind_eq_Inr)
  have "k1 = k" using AutoEncoder_forward_cursor [OF Cons.prems(1) a] by simp
  then show ?case using Cons.IH [OF Cons.prems(1) b] by simp
qed

lemma model_mode_set_parameters: "model_mode (set_parameters g m) = model_mode m"
  by (simp add: model_mode_def set_parameters_def)

lemma model_mode_eval: "model_mode (eval_mode m) = (False, False)"
  by (simp add: model_mode_def eval_mode_def set_training_def)

lemma model_mode_train: "model_mode (train m) = (True, True)"
  by (simp add: model_mode_def train_def set_training_def)

subsection \<open>One batch\<close>

lemma train_batch_effect:
  assumes "train_batch opt r x_batch s = Inr s'"
  shows "trace s' = trace s @ batch_events (model_mode (model s)) (lr s) 1"
    and "batch_frame s s'"
    and "\<exists>ls l. losses s = Some ls \<and> losses s' = Some (ls @ [l]) \<and> loss s' = Some l"
    and "model_mode (model s) = (False, False) \<Longrightarrow> cursor s' = cursor s"
proof -
  have ne: "x_batch \<noteq> []"
    using assms by (auto simp add: train_batch_def split: if_splits)
  obtain ys k where fw: "forward_batch (model s) r x_batch (cursor s) = Inr (ys, k)"
    and r1: "ebind (MSELoss (map snd ys) x_batch) (\<lambda>l.
        ebind (case losses s of None \<Rightarrow> Inl NameError | Some ls \<Rightarrow> Inr ls) (\<lambda>ls.
        (case opt (opt_state s) (lr s) (model s) x_batch (map r [cursor s..<k]) of
           (o1, g) \<Rightarrow>
             Inr (s\<lparr>model := set_parameters g (model s), opt_state := o1,
                    losses := Some (ls @ [l]), loss := Some l, cursor := k,
                    trace := trace s @
                      [ForwardPass (training (enc_dropout (encoder (model s))))
                                   (training (dec_dropout (decoder (model s)))),
                       OptimizerStep (lr s)]\<rparr>)))) = Inr s'"
    using assms ne unfolding train_batch_def by (auto simp add: ebind_eq_Inr)
  obtain l where r2: "ebind (case losses s of None \<Rightarrow> Inl NameError | Some ls \<Rightarrow> Inr ls) (\<lambda>ls.
        (case opt (opt_state s) (lr s) (model s) x_batch (map r [cursor s..<k]) of
           (o1, g) \<Rightarrow>
             Inr (s\<lparr>model := set_parameters g (model s), opt_state := o1,
                    losses := Some (ls @ [l]), loss := Some l, cursor := k,
                    trace := trace s @
                      [ForwardPass (training (enc_dropout (encoder (model s))))
                                   (training (dec_dropout (decoder (model s)))),
                       OptimizerStep (lr s)]\<rparr>))) = Inr s'"
    using r1 by (auto simp add: ebind_eq_Inr)
  obtain ls where ls: "losses s = Some ls"
    using r2 by (cases "losses s") simp_all
  obtain o1 g where og: "opt (opt_state s) (lr s) (model s) x_batch (map r [cursor s..<k]) = (o1, g)"
    by (cases "opt (opt_state s) (lr s) (model s) x_batch (map r [cursor s..<k])")
  have s': "s' = s\<lparr>model := set_parameters g (model s), opt_state := o1,
                    losses := Some (ls @ [l]), loss := Some l, cursor := k,
                    trace := trace s @
                      [ForwardPass (training (enc_dropout (encoder (model s))))
                                   (training (dec_dropout (decoder (model s)))),
                       OptimizerStep (lr s)]\<rparr>"
    using r2 ls og by simp
  show "trace s' = trace s @ batch_events (model_mode (model s)) (lr s) 1"
    using s' by (simp add: batch_events_def model_mode_def)
  show "batch_frame s s'"
    using s' by (simp add: batch_frame_def model_mode_set_parameters)
  show "\<exists>ls l. losses s = Some ls \<and> losses s' = Some (ls @ [l]) \<and> loss s' = Some l"
    using s' ls by simp
  show "cursor s' = cursor s" if "model_mode (model s) = (False, False)"
    using forward_batch_cursor [OF that fw] s' by simp
qed

lemma batch_frame_refl: "batch_frame s s"
  by (simp add: batch_frame_def)

lemma batch_frame_trans: "batch_frame s t \<Longrightarrow> batch_frame t u \<Longrightarrow> batch_frame s u"
  by (simp add: batch_frame_def)

subsection \<open>The batch loop\<close>

lemma batch_loop_effect:
  assumes "for_each (train_batch opt r) bs s = Inr s'"
  shows "trace s' = trace s @ batch_events (model_mode (model s)) (lr s) (length bs) \<and>
         batch_frame s s' \<and>
         (bs \<noteq> [] \<longrightarrow> (\<exists>ls new. losses s = Some ls \<and> losses s' = Some (ls @ new) \<and>
                           length new = length bs \<and> loss s' = Some (last new))) \<and>
         (bs = [] \<longrightarrow> losses s' = losses s \<and> loss s' = loss s) \<and>
         (model_mode (model s) = (False, False) \<longrightarrow> cursor s' = cursor s)"
  using assms
proof (induction bs arbitrary: s)
  case Nil
  then show ?case by (simp add: batch_events_0 batch_frame_refl)
next
  case (Cons b bs)
  from Cons.prems obtain t where t: "train_batch opt r b s = Inr t"
    and rest: "for_each (train_batch opt r) bs t = Inr s'"
    by (auto simp add: ebind_eq_Inr)
  note e = train_batch_effect [OF t]
  note ih = Cons.IH [OF rest]
  have fr: "batch_frame s t" by (rule e(2))
  have md: "model_mode (model t) = model_mode (model s)" and lrt: "lr t = lr s"
    using fr by (simp_all add: batch_frame_def)
  have tr: "trace s' = trace s @ batch_events (model_mode (model s)) (lr s) (length (b # bs))"
    using ih e(1) md lrt batch_events_add [of "model_mode (model s)" "lr s" 1 "length bs"]
    by simp
  have frame: "batch_frame s s'" using fr ih batch_frame_trans by blast
  obtain ls l where l: "losses s = Some ls" "losses t = Some (ls @ [l])" "loss t = Some l"
    using e(3) by blast
  have los: "\<exists>ls new. losses s = Some ls \<and> losses s' = Some (ls @ new) \<and>
                           length new = length (b # bs) \<and> loss s' = Some (last new)"
  proof (cases "bs = []")
    case True
    then have "losses s' = Some (ls @ [l])" "loss s' = Some l" using ih l by simp_all
    then show ?thesis using l(1) True
      by (intro exI [of _ ls] exI [of _ "[l]"]) simp
  next
    case False
    then obtain new where new: "losses s' = Some ((ls @ [l]) @ new)" "length new = length bs"
        "loss s' = Some (last new)"
      using ih l(2) by auto
    have "new \<noteq> []" using new(2) False by auto
    then show ?thesis using l(1) new
      by (intro exI [of _ ls] exI [of _ "l # new"]) simp
  qed
  have cur: "model_mode (model s) = (False, False) \<longrightarrow> cursor s' = cursor s"
    using e(4) ih md by simp
  show ?case using tr frame los cur by simp
qed

subsection \<open>Forward passes of a loop of epochs\<close>

lemma epochs_forward_modes:
  assumes body: "\<And>e s s'. body e s = Inr s' \<Longrightarrow>
      \<exists>new. trace s' = trace s @ new \<and>
            forward_modes new = replicate (cnt e) (model_mode (model s)) \<and>
            model_mode (model s') = model_mode (model s)"
    and run: "for_each body es s = Inr s'"
  shows "\<exists>new. trace s' = trace s @ new \<and>
            forward_modes new = replicate (sum_list (map cnt es)) (model_mode (model s)) \<and>
            model_mode (model s') = model_mode (model s)"
  using run
proof (induction es arbitrary: s)
  case Nil
  then show ?case by (simp add: forward_modes_def)
next
  case (Cons e es)
  from Cons.prems obtain t where t: "body e s = Inr t" and rest: "for_each body es t = Inr s'"
    by (auto simp add: ebind_eq_Inr)
  obtain n1 where n1: "trace t = trace s @ n1"
      "forward_modes n1 = replicate (cnt e) (model_mode (model s))"
      "model_mode (model t) = model_mode (model s)"
    using body [OF t] by blast
  obtain n2 where n2: "trace s' = trace t @ n2"
      "forward_modes n2 = replicate (sum_list (map cnt es)) (model_mode (model t))"
      "model_mode (model s') = model_mode (model t)"
    using Cons.IH [OF rest] by blast
  have "trace s' = trace s @ (n1 @ n2)" using n1(1) n2(1) by simp
  moreover have "forward_modes (n1 @ n2) =
      replicate (sum_list (map cnt (e # es))) (model_mode (model s))"
    using n1(2,3) n2(2) by (simp add: forward_modes_append replicate_add)
  moreover have "model_mode (model s') = model_mode (model s)" using n1(3) n2(3) by simp
  ultimately show ?case by blast
qed

subsection \<open>One fine-tuning epoch\<close>

lemma print_loss_effect:
  "\<exists>pr. trace (print_loss epoch n s) = trace s @ pr \<and> forward_modes pr = [] \<and>
        step_rates pr = [] \<and> scheduler_steps pr = [] \<and> saved_paths pr = []"
  "model (print_loss epoch n s) = model s" "lr (print_loss epoch n s) = lr s"
  "files (print_loss epoch n s) = files s" "cursor (print_loss epoch n s) = cursor s"
  "scheduler_last_epoch (print_loss epoch n s) = scheduler_last_epoch s"
  "best_loss (print_loss epoch n s) = best_loss s" "mean_loss (print_loss epoch n s) = mean_loss s"
  "losses (print_loss epoch n s) = losses s" "loss (print_loss epoch n s) = loss s"
  by (simp_all add: print_loss_def forward_modes_def step_rates_def scheduler_steps_def
        saved_paths_def)

lemma finetune_epoch_effect:
  assumes "finetune_epoch opt r dataloader n_epochs epoch s = Inr s'"
  shows "\<exists>new. trace s' = trace s @ new \<and>
           forward_modes new = replicate (length (dataloader epoch)) (model_mode (model s)) \<and>
           step_rates new = replicate (length (dataloader epoch)) (lr s) \<and>
           scheduler_steps new = [] \<and>
           saved_paths new = [''./torch_models/autoencoder-finetuned''] \<and>
           last new = Save ''./torch_models/autoencoder-finetuned''"
    and "lr s' = lr s" and "model_mode (model s') = model_mode (model s)"
    and "scheduler_last_epoch s' = scheduler_last_epoch s"
    and "files s' ''./torch_models/autoencoder-finetuned'' = Some (Inr (model s'))"
    and "model_mode (model s) = (False, False) \<Longrightarrow> cursor s' = cursor s"
    and "\<exists>old new. losses s = Some old \<and> losses s' = Some (old @ new) \<and>
           length new = length (dataloader epoch) \<and>
           mean_loss s' = np_round5 (np_mean (old @ new))"
proof -
  let ?path = "''./torch_models/autoencoder-finetuned''"
  from assms obtain s1 ls where
    b: "for_each (train_batch opt r) (dataloader epoch) s = Inr s1" and
    ls: "losses s1 = Some ls" and
    s': "s' = torch_save ?path (print_loss epoch n_epochs (s1\<lparr>mean_loss := np_round5 (np_mean ls)\<rparr>))"
    unfolding finetune_epoch_def
    by (auto simp add: ebind_eq_Inr Let_def split: option.splits)
  let ?s2 = "s1\<lparr>mean_loss := np_round5 (np_mean ls)\<rparr>"
  note be = batch_loop_effect [OF b]
  have fr: "batch_frame s s1" using be by simp
  obtain pr where pr: "trace (print_loss epoch n_epochs ?s2) = trace ?s2 @ pr"
      "forward_modes pr = []" "step_rates pr = []" "scheduler_steps pr = []" "saved_paths pr = []"
    using print_loss_effect(1) [of epoch n_epochs ?s2] by blast
  let ?new = "batch_events (model_mode (model s)) (lr s) (length (dataloader epoch)) @ pr @ [Save ?path]"
  have tr: "trace s' = trace s @ ?new"
    using s' be pr(1) by (simp add: torch_save_def)
  have "forward_modes ?new = replicate (length (dataloader epoch)) (model_mode (model s))"
    "step_rates ?new = replicate (length (dataloader epoch)) (lr s)"
    "scheduler_steps ?new = []" "saved_paths ?new = [?path]" "last ?new = Save ?path"
    using pr(2-5)
    by (simp_all add: trace_append batch_events_observed,
        simp_all add: forward_modes_def step_rates_def scheduler_steps_def saved_paths_def)
  then show "\<exists>new. trace s' = trace s @ new \<and>
           forward_modes new = replicate (length (dataloader epoch)) (model_mode (model s)) \<and>
           step_rates new = replicate (length (dataloader epoch)) (lr s) \<and>
           scheduler_steps new = [] \<and>
           saved_paths new = [?path] \<and> last new = Save ?path"
    using tr by blast
  show "lr s' = lr s" using s' fr by (simp add: torch_save_def print_loss_effect batch_frame_def)
  show "model_mode (model s') = model_mode (model s)"
    using s' fr by (simp add: torch_save_def print_loss_effect batch_frame_def)
  show "scheduler_last_epoch s' = scheduler_last_epoch s"
    using s' fr by (simp add: torch_save_def print_loss_effect batch_frame_def)
  show "files s' ?path = Some (Inr (model s'))"
    using s' by (simp add: torch_save_def)
  show "cursor s' = cursor s" if "model_mode (model s) = (False, False)"
    using s' be that by (simp add: torch_save_def print_loss_effect)
  show "\<exists>old new. losses s = Some old \<and> losses s' = Some (old @ new) \<and>
           length new = length (dataloader epoch) \<and>
           mean_loss s' = np_round5 (np_mean (old @ new))"
  proof (cases "dataloader epoch = []")
    case True
    then have "losses s = Some ls" using be ls by simp
    then show ?thesis using s' ls True
      by (intro exI [of _ ls] exI [of _ "[]"]) (simp add: torch_save_def print_loss_effect)
  next
    case False
    then obtain old new where on: "losses s = Some old" "losses s1 = Some (old @ new)"
        "length new = length (dataloader epoch)"
      using be by auto
    then have "ls = old @ new" using ls by simp
    then show ?thesis using s' on
      by (intro exI [of _ old] exI [of _ new]) (simp add: torch_save_def print_loss_effect)
  qed
qed

subsection \<open>The fine-tuning loop\<close>

lemma finetune_loop_effect:
  assumes "for_each (finetune_epoch opt r dataloader n_epochs) es s = Inr s'"
  shows "\<exists>new. trace s' = trace s @ new \<and>
           step_rates new = replicate (sum_list (map (\<lambda>e. length (dataloader e)) es)) (lr s) \<and>
           scheduler_steps new = [] \<and>
           saved_paths new = replicate (length es) ''./torch_models/autoencoder-finetuned''"
    and "lr s' = lr s" and "scheduler_last_epoch s' = scheduler_last_epoch s"
    and "model_mode (model s) = (False, False) \<Longrightarrow> cursor s' = cursor s"
  using assms
proof (induction es arbitrary: s)
  case Nil
  {
    case 1
    then show ?case by (simp add: step_rates_def scheduler_steps_def saved_paths_def)
  next
    case 2
    then show ?case by simp
  next
    case 3
    then show ?case by simp
  next
    case 4
    then show ?case by simp
  }
next
  case (Cons e es)
  {
    case 1
    from 1 obtain t where t: "finetune_epoch opt r dataloader n_epochs e s = Inr t"
      and rest: "for_each (finetune_epoch opt r dataloader n_epochs) es t = Inr s'"
      by (auto simp add: ebind_eq_Inr)
    note fe = finetune_epoch_effect [OF t]
    obtain n1 where n1: "trace t = trace s @ n1"
        "step_rates n1 = replicate (length (dataloader e)) (lr s)"
        "scheduler_steps n1 = []" "saved_paths n1 = [''./torch_models/autoencoder-finetuned'']"
      using fe(1) by blast
    obtain n2 where n2: "trace s' = trace t @ n2"
        "step_rates n2 = replicate (sum_list (map (\<lambda>e. length (dataloader e)) es)) (lr t)"
        "scheduler_steps n2 = []"
        "saved_paths n2 = replicate (length es) ''./torch_models/autoencoder-finetuned''"
      using Cons.IH(1) [OF rest] by blast
    have "trace s' = trace s @ (n1 @ n2)" using n1(1) n2(1) by simp
    moreover have "step_rates (n1 @ n2) =
        replicate (sum_list (map (\<lambda>e. length (dataloader e)) (e # es))) (lr s)"
      using n1(2) n2(2) fe(2) by (simp add: step_rates_append replicate_add)
    moreover have "scheduler_steps (n1 @ n2) = []"
      using n1(3) n2(3) by (simp add: scheduler_steps_append)
    moreover have "saved_paths (n1 @ n2) =
        replicate (length (e # es)) ''./torch_models/autoencoder-finetuned''"
      using n1(4) n2(4) by (simp add: saved_paths_append)
    ultimately show ?case by blast
  next
    case 2
    from 2 obtain t where t: "finetune_epoch opt r dataloader n_epochs e s = Inr t"
      and rest: "for_each (finetune_epoch opt r dataloader n_epochs) es t = Inr s'"
      by (auto simp add: ebind_eq_Inr)
    show ?case using finetune_epoch_effect(2) [OF t] Cons.IH(2) [OF rest] by simp
  next
    case 3
    from 3 obtain t where t: "finetune_epoch opt r dataloader n_epochs e s = Inr t"
      and rest: "for_each (finetune_epoch opt r dataloader n_epochs) es t = Inr s'"
      by (auto simp add: ebind_eq_Inr)
    show ?case using finetune_epoch_effect(4) [OF t] Cons.IH(3) [OF rest] by simp
  next
    case 4
    from 4 obtain t where t: "finetune_epoch opt r dataloader n_epochs e s = Inr t"
      and rest: "for_each (finetune_epoch opt r dataloader n_epochs) es t = Inr s'"
      by (auto simp add: ebind_eq_Inr)
    have mt: "model_mode (model t) = (False, False)"
      using finetune_epoch_effect(3) [OF t] 4(1) by simp
    show ?case using finetune_epoch_effect(6) [OF t 4(1)] Cons.IH(4) [OF mt rest] by simp
  }
qed

subsection \<open>One pre-training epoch\<close>

lemma pretrain_epoch_modes:
  assumes "pretrain_epoch opt r dataloader n_epochs epoch s = Inr s'"
  shows "\<exists>new. trace s' = trace s @ new \<and>
           forward_modes new = replicate (length (dataloader epoch)) (model_mode (model s)) \<and>
           model_mode (model s') = model_mode (model s)"
proof -
  let ?s0 = "s\<lparr>losses := Some []\<rparr>"
  from assms obtain s1 ls where
    b: "for_each (train_batch opt r) (dataloader epoch) ?s0 = Inr s1" and
    rest: "(let s2 = s1\<lparr>mean_loss := np_round5 (np_mean ls)\<rparr>;
          s3 = print_loss epoch n_epochs s2;
          s4 = scheduler_step s3
      in if np_less (mean_loss s4) (best_loss s4)
         then ebind (case loss s4 of None \<Rightarrow> Inl NameError | Some l \<Rightarrow> Inr l) (\<lambda>l.
              Inr (torch_save ''./torch_models/autoencoder'' (s4\<lparr>best_loss := l\<rparr>)))
         else Inr s4) = Inr s'"
    unfolding pretrain_epoch_def by (auto simp add: ebind_eq_Inr)
  let ?s2 = "s1\<lparr>mean_loss := np_round5 (np_mean ls)\<rparr>"
  let ?s3 = "print_loss epoch n_epochs ?s2"
  let ?s4 = "scheduler_step ?s3"
  note be = batch_loop_effect [OF b]
  have tr1: "trace s1 = trace s @ batch_events (model_mode (model s)) (lr s)
      (length (dataloader epoch))"
    using be by simp
  have md1: "model_mode (model s1) = model_mode (model s)"
    using be by (simp add: batch_frame_def)
  obtain pr where pr: "trace ?s3 = trace ?s2 @ pr" "forward_modes pr = []"
    using print_loss_effect(1) [of epoch n_epochs ?s2] by blast
  obtain q where tr4: "trace ?s4 = trace ?s3 @ [SchedulerStep q]"
    by (simp add: scheduler_step_def Let_def)
  have md4: "model ?s4 = model s1"
    by (simp add: scheduler_step_def Let_def print_loss_effect)
  obtain tl where tl: "trace s' = trace ?s4 @ tl" "forward_modes tl = []"
    and ms: "model s' = model ?s4"
  proof (cases "np_less (mean_loss ?s4) (best_loss ?s4)")
    case True
    then obtain l where "s' = torch_save ''./torch_models/autoencoder'' (?s4\<lparr>best_loss := l\<rparr>)"
      using rest by (auto simp add: Let_def ebind_eq_Inr split: option.splits)
    then have "trace s' = trace ?s4 @ [Save ''./torch_models/autoencoder'']"
      "model s' = model ?s4"
      by (simp_all add: torch_save_def)
    then show ?thesis using that [of "[Save ''./torch_models/autoencoder'']"]
      by (simp add: forward_modes_def)
  next
    case False
    then have "s' = ?s4" using rest by (simp add: Let_def)
    then show ?thesis using that [of "[]"] by (simp add: forward_modes_def)
  qed
  let ?new = "batch_events (model_mode (model s)) (lr s) (length (dataloader epoch))
      @ pr @ [SchedulerStep q] @ tl"
  have "trace s' = trace s @ ?new" using tl(1) tr4 pr(1) tr1 by simp
  moreover have "forward_modes ?new = replicate (length (dataloader epoch)) (model_mode (model s))"
    using pr(2) tl(2)
    by (simp add: forward_modes_append batch_events_observed) (simp add: forward_modes_def)
  moreover have "model_mode (model s') = model_mode (model s)" using ms md4 md1 by simp
  ultimately show ?thesis by blast
qed

lemma finetune_epoch_modes:
  assumes "finetune_epoch opt r dataloader n_epochs epoch s = Inr s'"
  shows "\<exists>new. trace s' = trace s @ new \<and>
           forward_modes new = replicate (length (dataloader epoch)) (model_mode (model s)) \<and>
           model_mode (model s') = model_mode (model s)"
  using finetune_epoch_effect(1,3) [OF assms] by blast

subsection \<open>The fine-tuning cell\<close>

lemma finetune_cell_effect:
  assumes "finetune_cell opt o0 r dataloader n_epochs s = Inr s'"
  shows "forward_modes (new_events s s') = replicate (n_batches dataloader n_epochs) (False, False)"
    and "step_rates (new_events s s') = replicate (n_batches dataloader n_epochs) (1 / 10)"
    and "scheduler_steps (new_events s s') = []"
    and "saved_paths (new_events s s') =
           replicate n_epochs ''./torch_models/autoencoder-finetuned''"
    and "lr s' = 1 / 10" and "scheduler_last_epoch s' = scheduler_last_epoch s"
    and "model_mode (model s') = (False, False)" and "cursor s' = cursor s"
proof -
  from assms obtain m where
    run: "for_each (finetune_epoch opt r dataloader n_epochs) [0..<n_epochs]
       (s\<lparr>model := eval_mode m, lr := 1 / 10, opt_state := o0, best_loss := PosInf\<rparr>) = Inr s'"
    unfolding finetune_cell_def load_model_def by (auto simp add: ebind_eq_Inr)
  let ?s2 = "s\<lparr>model := eval_mode m, lr := 1 / 10, opt_state := o0, best_loss := PosInf\<rparr>"
  have md: "model_mode (model ?s2) = (False, False)" by (simp add: model_mode_eval)
  have "\<exists>new. trace s' = trace ?s2 @ new \<and>
      forward_modes new = replicate (sum_list (map (\<lambda>e. length (dataloader e)) [0..<n_epochs]))
         (model_mode (model ?s2)) \<and>
      model_mode (model s') = model_mode (model ?s2)"
  proof (rule epochs_forward_modes [where body = "finetune_epoch opt r dataloader n_epochs"
        and cnt = "\<lambda>e. length (dataloader e)"])
    show "\<exists>new. trace t' = trace t @ new \<and>
            forward_modes new = replicate (length (dataloader e)) (model_mode (model t)) \<and>
            model_mode (model t') = model_mode (model t)"
      if "finetune_epoch opt r dataloader n_epochs e t = Inr t'" for e t t'
      using that by (rule finetune_epoch_modes)
    show "for_each (finetune_epoch opt r dataloader n_epochs) [0..<n_epochs] ?s2 = Inr s'"
      by (rule run)
  qed
  then obtain n1 where n1: "trace s' = trace ?s2 @ n1"
      "forward_modes n1 = replicate (sum_list (map (\<lambda>e. length (dataloader e)) [0..<n_epochs]))
         (model_mode (model ?s2))"
      "model_mode (model s') = model_mode (model ?s2)"
    by blast
  obtain n2 where n2: "trace s' = trace ?s2 @ n2"
      "step_rates n2 = replicate (sum_list (map (\<lambda>e. length (dataloader e)) [0..<n_epochs]))
         (lr ?s2)"
      "scheduler_steps n2 = []"
      "saved_paths n2 = replicate (length [0..<n_epochs]) ''./torch_models/autoencoder-finetuned''"
    using finetune_loop_effect(1) [OF run] by blast
  have same: "n2 = n1" using n1(1) n2(1) by simp
  have ne: "new_events s s' = n1" using n1(1) by (simp add: new_events_def)
  show "forward_modes (new_events s s') = replicate (n_batches dataloader n_epochs) (False, False)"
    using ne n1(2) md by (simp add: n_batches_def)
  show "step_rates (new_events s s') = replicate (n_batches dataloader n_epochs) (1 / 10)"
    using ne n2(2) same by (simp add: n_batches_def)
  show "scheduler_steps (new_events s s') = []" using ne n2(3) same by simp
  show "saved_paths (new_events s s') = replicate n_epochs ''./torch_models/autoencoder-finetuned''"
    using ne n2(4) same by simp
  show "lr s' = 1 / 10" using finetune_loop_effect(2) [OF run] by simp
  show "scheduler_last_epoch s' = scheduler_last_epoch s"
    using finetune_loop_effect(3) [OF run] by simp
  show "model_mode (model s') = (False, False)" using n1(3) md by simp
  show "cursor s' = cursor s" using finetune_loop_effect(4) [OF run md] by simp
qed

subsection \<open>Pre-training after the set-up cell\<close>

lemma setup_cell_state:
  assumes "setup_cell g o0 n_input_features hidden_layers dropout_rate fs = Inr s"
  shows "trace s = []" and "model_mode (model s) = (True, True)" and "lr s = 1 / 10"
    and "losses s = None" and "files s = fs"
  using assms unfolding setup_cell_def
  by (auto simp add: ebind_eq_Inr model_mode_train)

lemma pretrain_cell_modes:
  assumes "pretrain_cell opt r dataloader n_epochs s = Inr s'"
  shows "forward_modes (new_events s s') =
           replicate (n_batches dataloader n_epochs) (model_mode (model s))"
    and "model_mode (model s') = model_mode (model s)"
proof -
  let ?s0 = "s\<lparr>best_loss := PosInf\<rparr>"
  have run: "for_each (pretrain_epoch opt r dataloader n_epochs) [0..<n_epochs] ?s0 = Inr s'"
    using assms by (simp add: pretrain_cell_def)
  have "\<exists>new. trace s' = trace ?s0 @ new \<and>
      forward_modes new = replicate (sum_list (map (\<lambda>e. length (dataloader e)) [0..<n_epochs]))
         (model_mode (model ?s0)) \<and>
      model_mode (model s') = model_mode (model ?s0)"
  proof (rule epochs_forward_modes [where body = "pretrain_epoch opt r dataloader n_epochs"
        and cnt = "\<lambda>e. length (dataloader e)"])
    show "\<exists>new. trace t' = trace t @ new \<and>
            forward_modes new = replicate (length (dataloader e)) (model_mode (model t)) \<and>
            model_mode (model t') = model_mode (model t)"
      if "pretrain_epoch opt r dataloader n_epochs e t = Inr t'" for e t t'
      using that by (rule pretrain_epoch_modes)
    show "for_each (pretrain_epoch opt r dataloader n_epochs) [0..<n_epochs] ?s0 = Inr s'"
      by (rule run)
  qed
  then obtain n1 where n1: "trace s' = trace ?s0 @ n1"
      "forward_modes n1 = replicate (sum_list (map (\<lambda>e. length (dataloader e)) [0..<n_epochs]))
         (model_mode (model ?s0))"
      "model_mode (model s') = model_mode (model ?s0)"
    by blast
  have ne: "new_events s s' = n1" using n1(1) by (simp add: new_events_def)
  show "forward_modes (new_events s s') =
           replicate (n_batches dataloader n_epochs) (model_mode (model s))"
    using ne n1(2) by (simp add: n_batches_def)
  show "model_mode (model s') = model_mode (model s)" using n1(3) by simp
qed

subsection \<open>Training mode draws one sample per entry entering a dropout module\<close>

lemma Linear_forward_length:
  "Linear_forward l x = Inr y \<Longrightarrow> layer_fits l a b \<Longrightarrow> length y = nat b"
  by (auto simp add: Linear_forward_def layer_fits_def split: if_splits)

lemma Dropout_forward_training:
  "training dp \<Longrightarrow> \<exists>y. Dropout_forward dp r (x, k) = (y, k + length x) \<and> length y = length x"
  by (simp add: Dropout_forward_def)

lemma forward_loop_draws:
  "\<forall>t<length ds. layer_fits (ds ! t) (ws ! t) (ws ! Suc t) \<Longrightarrow>
   \<forall>v. length (act v) = length v \<Longrightarrow> training dp \<Longrightarrow>
   j \<le> m \<Longrightarrow> m \<le> length ds \<Longrightarrow>
   forward_loop ds act dp r (map int [j..<m]) (x, k) = Inr (y, k') \<Longrightarrow>
   k' = k + sum_list (map (\<lambda>t. nat (ws ! Suc t)) [j..<m])"
proof (induction "m - j" arbitrary: j x k)
  case 0
  then show ?case by simp
next
  case (Suc d)
  then have jm: "j < m" and jl: "j < length ds" by auto
  have fit: "layer_fits (ds ! j) (ws ! j) (ws ! Suc j)" using Suc.prems(1) jl by blast
  have unfold: "forward_loop ds act dp r (map int [j..<m]) (x, k) =
      ebind (Linear_forward (ds ! j) x) (\<lambda>y0.
        forward_loop ds act dp r (map int [Suc j..<m]) (Dropout_forward dp r (act y0, k)))"
    using jm jl by (simp add: upt_conv_Cons getattr_dense_nat)
  have run: "ebind (Linear_forward (ds ! j) x) (\<lambda>y0.
        forward_loop ds act dp r (map int [Suc j..<m]) (Dropout_forward dp r (act y0, k)))
      = Inr (y, k')"
    using unfold Suc.prems(6) by simp
  obtain y0 where y0: "Linear_forward (ds ! j) x = Inr y0"
    using run by (cases "Linear_forward (ds ! j) x") simp_all
  have rest: "forward_loop ds act dp r (map int [Suc j..<m]) (Dropout_forward dp r (act y0, k))
        = Inr (y, k')"
    using run y0 by simp
  have ly0: "length (act y0) = nat (ws ! Suc j)"
    using Linear_forward_length [OF y0 fit] Suc.prems(2) by simp
  obtain x' where x': "Dropout_forward dp r (act y0, k) = (x', k + length (act y0))"
    using Dropout_forward_training [OF Suc.prems(3)] by blast
  have d: "d = m - Suc j" using Suc.hyps(2) by simp
  have sj: "Suc j \<le> m" using jm by simp
  have "k' = (k + length (act y0)) + sum_list (map (\<lambda>t. nat (ws ! Suc t)) [Suc j..<m])"
    using Suc.hyps(1) [OF d Suc.prems(1) Suc.prems(2) Suc.prems(3) sj Suc.prems(5)] rest x'
    by simp
  then show ?case using ly0 jm by (simp add: upt_conv_Cons)
qed

lemma Encoder_forward_draws:
  assumes built: "encoder_built e isz hs dr act n"
    and act: "\<forall>v. length (act v) = length v"
    and run: "Encoder_forward e r (x, k) = Inr (y, k')"
  shows "k' = k + sum_list (map (\<lambda>t. nat (hs ! Suc t)) [0..<length hs - 2])"
proof -
  let ?ds = "enc_dense e"
  have b: "enc_activation e = act" "enc_n_layers e = int (length hs) - 1"
      "length ?ds = length hs - 1" "training (enc_dropout e)"
      "\<forall>t<length hs - 1. layer_fits (?ds ! t) (hs ! t) (hs ! Suc t)"
    using built by (simp_all add: encoder_built_def)
  have fits: "\<forall>t<length ?ds. layer_fits (?ds ! t) (hs ! t) (hs ! Suc t)" using b(3,5) by simp
  have rng: "py_range0 (enc_n_layers e - 1) = map int [0..<length hs - 2]"
    using b(2) by (simp add: py_range0_def nat_diff_distrib')
  have m: "length hs - 2 \<le> length ?ds" using b(3) by simp
  from run obtain y0 zk where
    lp: "forward_loop ?ds act (enc_dropout e) r (map int [0..<length hs - 2]) (act y0, k) = Inr zk"
    and k': "k' = snd zk"
    unfolding Encoder_forward_def using rng b(1) by (auto simp add: ebind_eq_Inr)
  obtain z kz where zk: "zk = (z, kz)" by (cases zk)
  have "kz = k + sum_list (map (\<lambda>t. nat (hs ! Suc t)) [0..<length hs - 2])"
    using forward_loop_draws [OF fits act b(4) _ m, of 0 r "act y0" k z kz] lp zk by simp
  then show ?thesis using k' zk by simp
qed

lemma Decoder_forward_draws:
  assumes built: "decoder_built d isz hs dr act n"
    and act: "\<forall>v. length (act v) = length v"
    and run: "Decoder_forward d r (x, k) = Inr (y, k')"
  shows "k' = k + sum_list (map (\<lambda>t. nat (rev hs ! Suc t)) [0..<length hs - 1])"
proof -
  let ?ds = "dec_dense d"
  have b: "dec_activation d = act" "dec_n_layers d = int (length hs) - 1"
      "length ?ds = length hs - 1" "training (dec_dropout d)"
      "\<forall>t<length hs - 1. layer_fits (?ds ! t) (rev hs ! t) (rev hs ! Suc t)"
    using built by (simp_all add: decoder_built_def)
  have fits: "\<forall>t<length ?ds. layer_fits (?ds ! t) (rev hs ! t) (rev hs ! Suc t)"
    using b(3,5) by simp
  have rng: "py_range0 (dec_n_layers d) = map int [0..<length hs - 1]"
    using b(2) by (simp add: py_range0_def nat_diff_distrib')
  have m: "length hs - 1 \<le> length ?ds" using b(3) by simp
  from run obtain zk where
    lp: "forward_loop ?ds act (dec_dropout d) r (map int [0..<length hs - 1]) (x, k) = Inr zk"
    and k': "k' = snd zk"
    unfolding Decoder_forward_def using rng b(1) by (auto simp add: ebind_eq_Inr)
  obtain z kz where zk: "zk = (z, kz)" by (cases zk)
  have "kz = k + sum_list (map (\<lambda>t. nat (rev hs ! Suc t)) [0..<length hs - 1])"
    using forward_loop_draws [OF fits act b(4) _ m, of 0 r x k z kz] lp zk by simp
  then show ?thesis using k' zk by simp
qed

lemma AutoEncoder_forward_draws:
  assumes built: "model_built m isz hs dr n"
    and run: "AutoEncoder_forward m r (x, k) = Inr (y, k')"
  shows "k' = k + draws_per_record hs"
proof -
  have relu: "\<forall>v. length (ReLU v) = length v" by (simp add: ReLU_length)
  from run obtain ek dk where
    e: "Encoder_forward (encoder m) r (x, k) = Inr ek" and
    d: "Decoder_forward (decoder m) r ek = Inr dk" and k': "k' = snd dk"
    unfolding AutoEncoder_forward_def by (auto simp add: ebind_eq_Inr)
  obtain ey k1 where ek: "ek = (ey, k1)" by (cases ek)
  obtain dy k2 where dk: "dk = (dy, k2)" by (cases dk)
  have "k1 = k + sum_list (map (\<lambda>t. nat (hs ! Suc t)) [0..<length hs - 2])"
    using Encoder_forward_draws [OF _ relu, of "encoder m" isz hs dr n r x k ey k1]
      built e ek by (simp add: model_built_def)
  moreover have "k2 = k1 + sum_list (map (\<lambda>t. nat (rev hs ! Suc t)) [0..<length hs - 1])"
    using Decoder_forward_draws [OF _ relu, of "decoder m" isz hs dr "n + length hs" r ey k1 dy k2]
      built d ek dk by (simp add: model_built_def)
  ultimately show ?thesis using k' dk by (simp add: draws_per_record_def)
qed

lemma forward_batch_draws:
  "model_built m isz hs dr n \<Longrightarrow> forward_batch m r X k = Inr (ys, k') \<Longrightarrow>
   k' = k + length X * draws_per_record hs"
proof (induction X arbitrary: k ys)
  case Nil
  then show ?case by simp
next
  case (Cons x X)
  from Cons.prems(2) obtain y k1 zs where
    a: "AutoEncoder_forward m r (x, k) = Inr (y, k1)" and b: "forward_batch m r X k1 = Inr (zs, k')"
    by (auto simp add: ebind_eq_Inr)
  have "k1 = k + draws_per_record hs" using AutoEncoder_forward_draws [OF Cons.prems(1) a] .
  then show ?case using Cons.IH [OF Cons.prems(1) b] by simp
qed

subsection \<open>The optimizer keeps the shapes\<close>

lemma layer_fits_refill: "layer_fits l a b \<Longrightarrow> layer_fits (refill g l) a b"
  by (simp add: layer_fits_def refill_def)

lemma param_id_refill: "param_id (refill g l) = param_id l"
  by (simp add: refill_def)

lemma model_built_set_parameters:
  "model_built m isz hs dr n \<Longrightarrow> model_built (set_parameters g m) isz hs dr n"
  unfolding model_built_def encoder_built_def decoder_built_def set_parameters_def
  by (simp add: layer_fits_refill param_id_refill)

lemma model_built_train: "model_built m isz hs dr n \<Longrightarrow> model_built (train m) isz hs dr n"
  unfolding model_built_def encoder_built_def decoder_built_def train_def set_training_def
  by simp

lemma AutoEncoder_init_built:
  assumes "AutoEncoder_init g isz hs dr act n = Inr (m, n')"
  shows "model_built m isz hs dr n"
proof -
  from assms obtain enc n1 where
    e: "Encoder_init g isz hs dr ReLU n = Inr (enc, n1)"
    unfolding AutoEncoder_init_def by (auto simp add: ebind_eq_Inr)
  have hs: "hs \<noteq> []" using e Encoder_init_empty [of g isz dr ReLU n] by auto
  have "\<not> (isz < 0 \<or> (\<exists>w\<in>set hs. w < 0))"
  proof
    assume "isz < 0 \<or> (\<exists>w\<in>set hs. w < 0)"
    then have "Encoder_init g isz hs dr ReLU n = Inl RuntimeError"
      by (rule Encoder_init_negative [OF hs])
    then show False using e by simp
  qed
  then have nn: "0 \<le> isz" "\<forall>w\<in>set hs. 0 \<le> w" by (simp_all add: not_less)
  have "\<not> (dr < 0 \<or> 1 < dr)"
  proof
    assume "dr < 0 \<or> 1 < dr"
    then have "Encoder_init g isz hs dr ReLU n = Inl ValueError"
      by (rule Encoder_init_bad_rate [OF hs nn(2) nn(1)])
    then show False using e by simp
  qed
  then have dr: "0 \<le> dr" "dr \<le> 1" by (simp_all add: not_less)
  obtain m' where m': "AutoEncoder_init g isz hs dr act n = Inr (m', n + 2 * length hs)"
      "encoder_built (encoder m') isz hs dr ReLU n"
      "decoder_built (decoder m') isz hs dr ReLU (n + length hs)"
    using AutoEncoder_init_ok [OF hs nn(2) nn(1) dr] by blast
  then have "m' = m" using assms by simp
  then show ?thesis using m'(2,3) by (simp add: model_built_def)
qed

lemma setup_cell_built:
  assumes "setup_cell g o0 n_input_features hidden_layers dropout_rate fs = Inr s"
  shows "model_built (model s) n_input_features hidden_layers dropout_rate 0"
    and "cursor s = 0"
proof -
  from assms obtain m n' where
    m: "AutoEncoder_init g n_input_features hidden_layers dropout_rate ReLU 0 = Inr (m, n')"
    and s: "model s = train m" "cursor s = 0"
    unfolding setup_cell_def by (auto simp add: ebind_eq_Inr)
  show "model_built (model s) n_input_features hidden_layers dropout_rate 0"
    using AutoEncoder_init_built [OF m] s(1) by (simp add: model_built_train)
  show "cursor s = 0" by (rule s(2))
qed

subsection \<open>Random samples drawn by the training cells\<close>

lemma train_batch_forward:
  assumes "train_batch opt r x_batch s = Inr s'"
  shows "\<exists>ys g. forward_batch (model s) r x_batch (cursor s) = Inr (ys, cursor s') \<and>
               model s' = set_parameters g (model s)"
proof -
  have ne: "x_batch \<noteq> []"
    using assms by (auto simp add: train_batch_def split: if_splits)
  obtain ys k where fw: "forward_batch (model s) r x_batch (cursor s) = Inr (ys, k)"
    and r1: "ebind (MSELoss (map snd ys) x_batch) (\<lambda>l.
        ebind (case losses s of None \<Rightarrow> Inl NameError | Some ls \<Rightarrow> Inr ls) (\<lambda>ls.
        (case opt (opt_state s) (lr s) (model s) x_batch (map r [cursor s..<k]) of
           (o1, g) \<Rightarrow>
             Inr (s\<lparr>model := set_parameters g (model s), opt_state := o1,
                    losses := Some (ls @ [l]), loss := Some l, cursor := k,
                    trace := trace s @
                      [ForwardPass (training (enc_dropout (encoder (model s))))
                                   (training (dec_dropout (decoder (model s)))),
                       OptimizerStep (lr s)]\<rparr>)))) = Inr s'"
    using assms ne unfolding train_batch_def by (auto simp add: ebind_eq_Inr)
  obtain l where r2: "ebind (case losses s of None \<Rightarrow> Inl NameError | Some ls \<Rightarrow> Inr ls) (\<lambda>ls.
        (case opt (opt_state s) (lr s) (model s) x_batch (map r [cursor s..<k]) of
           (o1, g) \<Rightarrow>
             Inr (s\<lparr>model := set_parameters g (model s), opt_state := o1,
                    losses := Some (ls @ [l]), loss := Some l, cursor := k,
                    trace := trace s @
                      [ForwardPass (training (enc_dropout (encoder (model s))))
                                   (training (dec_dropout (decoder (model s)))),
                       OptimizerStep (lr s)]\<rparr>))) = Inr s'"
    using r1 by (auto simp add: ebind_eq_Inr)
  obtain ls where ls: "losses s = Some ls"
    using r2 by (cases "losses s") simp_all
  obtain o1 g where og: "opt (opt_state s) (lr s) (model s) x_batch (map r [cursor s..<k]) = (o1, g)"
    by (cases "opt (opt_state s) (lr s) (model s) x_batch (map r [cursor s..<k])")
  have "cursor s' = k" "model s' = set_parameters g (model s)"
    using r2 ls og by auto
  then show ?thesis using fw by blast
qed

lemma train_batch_draws:
  assumes run: "train_batch opt r x_batch s = Inr s'"
    and built: "model_built (model s) isz hs dr n"
  shows "cursor s' = cursor s + length x_batch * draws_per_record hs"
    and "model_built (model s') isz hs dr n"
proof -
  obtain ys g where fw: "forward_batch (model s) r x_batch (cursor s) = Inr (ys, cursor s')"
    and m: "model s' = set_parameters g (model s)"
    using train_batch_forward [OF run] by blast
  show "cursor s' = cursor s + length x_batch * draws_per_record hs"
    using forward_batch_draws [OF built fw] .
  show "model_built (model s') isz hs dr n"
    using m built by (simp add: model_built_set_parameters)
qed

lemma batch_loop_draws:
  "for_each (train_batch opt r) bs s = Inr s' \<Longrightarrow> model_built (model s) isz hs dr n \<Longrightarrow>
   cursor s' = cursor s + sum_list (map length bs) * draws_per_record hs \<and>
   model_built (model s') isz hs dr n"
proof (induction bs arbitrary: s)
  case Nil
  then show ?case by simp
next
  case (Cons b bs)
  from Cons.prems(1) obtain t where t: "train_batch opt r b s = Inr t"
    and rest: "for_each (train_batch opt r) bs t = Inr s'"
    by (auto simp add: ebind_eq_Inr)
  note d = train_batch_draws [OF t Cons.prems(2)]
  show ?case using Cons.IH [OF rest d(2)] d(1) by (simp add: distrib_right)
qed

lemma pretrain_epoch_batches:
  assumes "pretrain_epoch opt r dataloader n_epochs epoch s = Inr s'"
  shows "\<exists>s1. for_each (train_batch opt r) (dataloader epoch) (s\<lparr>losses := Some []\<rparr>) = Inr s1 \<and>
              model s' = model s1 \<and> cursor s' = cursor s1"
proof -
  let ?s0 = "s\<lparr>losses := Some []\<rparr>"
  from assms obtain s1 ls where
    b: "for_each (train_batch opt r) (dataloader epoch) ?s0 = Inr s1" and
    rest: "(let s2 = s1\<lparr>mean_loss := np_round5 (np_mean ls)\<rparr>;
          s3 = print_loss epoch n_epochs s2;
          s4 = scheduler_step s3
      in if np_less (mean_loss s4) (best_loss s4)
         then ebind (case loss s4 of None \<Rightarrow> Inl NameError | Some l \<Rightarrow> Inr l) (\<lambda>l.
              Inr (torch_save ''./torch_models/autoencoder'' (s4\<lparr>best_loss := l\<rparr>)))
         else Inr s4) = Inr s'"
    unfolding pretrain_epoch_def by (auto simp add: ebind_eq_Inr)
  let ?s4 = "scheduler_step (print_loss epoch n_epochs (s1\<lparr>mean_loss := np_round5 (np_mean ls)\<rparr>))"
  have s4: "model ?s4 = model s1" "cursor ?s4 = cursor s1"
    by (simp_all add: scheduler_step_def Let_def print_loss_effect)
  have "model s' = model ?s4 \<and> cursor s' = cursor ?s4"
  proof (cases "np_less (mean_loss ?s4) (best_loss ?s4)")
    case True
    then obtain l where "s' = torch_save ''./torch_models/autoencoder'' (?s4\<lparr>best_loss := l\<rparr>)"
      using rest by (auto simp add: Let_def ebind_eq_Inr split: option.splits)
    then show ?thesis by (simp add: torch_save_def)
  next
    case False
    then have "s' = ?s4" using rest by (simp add: Let_def)
    then show ?thesis by simp
  qed
  then show ?thesis using b s4 by auto
qed

lemma pretrain_epoch_draws:
  assumes run: "pretrain_epoch opt r dataloader n_epochs epoch s = Inr s'"
    and built: "model_built (model s) isz hs dr n"
  shows "cursor s' = cursor s + sum_list (map length (dataloader epoch)) * draws_per_record hs \<and>
         model_built (model s') isz hs dr n"
proof -
  obtain s1 where b: "for_each (train_batch opt r) (dataloader epoch) (s\<lparr>losses := Some []\<rparr>) = Inr s1"
    and eq: "model s' = model s1" "cursor s' = cursor s1"
    using pretrain_epoch_batches [OF run] by blast
  have "model_built (model (s\<lparr>losses := Some []\<rparr>)) isz hs dr n" using built by simp
  from batch_loop_draws [OF b this] show ?thesis using eq by simp
qed

lemma pretrain_loop_draws:
  "for_each (pretrain_epoch opt r dataloader n_epochs) es s = Inr s' \<Longrightarrow>
   model_built (model s) isz hs dr n \<Longrightarrow>
   cursor s' = cursor s +
     sum_list (map (\<lambda>e. sum_list (map length (dataloader e))) es) * draws_per_record hs \<and>
   model_built (model s') isz hs dr n"
proof (induction es arbitrary: s)
  case Nil
  then show ?case by simp
next
  case (Cons e es)
  from Cons.prems(1) obtain t where t: "pretrain_epoch opt r dataloader n_epochs e s = Inr t"
    and rest: "for_each (pretrain_epoch opt r dataloader n_epochs) es t = Inr s'"
    by (auto simp add: ebind_eq_Inr)
  note d = pretrain_epoch_draws [OF t Cons.prems(2)]
  show ?case using Cons.IH [OF rest conjunct2 [OF d]] conjunct1 [OF d]
    by (simp add: distrib_right)
qed

lemma pretrain_cell_draws:
  assumes run: "pretrain_cell opt r dataloader n_epochs s = Inr s'"
    and built: "model_built (model s) isz hs dr n"
  shows "cursor s' = cursor s + n_records dataloader n_epochs * draws_per_record hs"
proof -
  have r: "for_each (pretrain_epoch opt r dataloader n_epochs) [0..<n_epochs]
      (s\<lparr>best_loss := PosInf\<rparr>) = Inr s'"
    using run by (simp add: pretrain_cell_def)
  have "model_built (model (s\<lparr>best_loss := PosInf\<rparr>)) isz hs dr n" using built by simp
  from pretrain_loop_draws [OF r this] show ?thesis by (simp add: n_records_def)
qed

section \<open>Runs of the notebook\<close>

subsection \<open>The example runs succeed\<close>


lemma zero_pretrained_run:
  "pretrain_cell (hold zero_init) keep_all two_epochs 2 zero_setup = Inr zero_pretrained"
proof -
  have "\<not> isl (pretrain_cell (hold zero_init) keep_all two_epochs 2 zero_setup)" by code_simp
  then show ?thesis unfolding zero_pretrained_def by simp
qed

lemma zero_finetuned_run:
  "finetune_cell (hold zero_init) () keep_all one_batch 2 zero_pretrained = Inr zero_finetuned"
proof -
  have "\<not> isl (finetune_cell (hold zero_init) () keep_all one_batch 2 zero_pretrained)"
    by code_simp
  then show ?thesis unfolding zero_finetuned_def by simp
qed

lemma zero_epoch_run:
  "finetune_epoch (hold zero_init) keep_all one_batch 2 0 zero_pretrained
     = Inr (projr (finetune_epoch (hold zero_init) keep_all one_batch 2 0 zero_pretrained))"
proof -
  have "\<not> isl (finetune_epoch (hold zero_init) keep_all one_batch 2 0 zero_pretrained)"
    by code_simp
  then show ?thesis by simp
qed

subsection \<open>Pre-training: what \<open>best_loss\<close> holds\<close>

text \<open>
  C1 (the code at a failing input). Pre-training with two batches per epoch: the batch losses
  are 4 and 0 in the first epoch (mean 2) and 1 and 1 in the second (mean 1). After the first
  epoch a checkpoint is saved and \<open>best_loss\<close> is 0, the loss of the last batch, not the
  mean 2. The second epoch's mean 1 is below the best epoch mean 2, yet it is compared with
  0: no checkpoint is saved and \<open>best_loss\<close> stays 0.
\<close>

theorem pretrain_best_loss_is_last_batch_loss:
  "pretrain_cell (hold zero_init) keep_all two_epochs 1 zero_setup = Inr zero_pretrained_once \<and>
   losses zero_pretrained_once = Some [Fin 4, Fin 0] \<and>
   mean_loss zero_pretrained_once = Fin 2 \<and>
   best_loss zero_pretrained_once = Fin 0 \<and>
   saved_paths (trace zero_pretrained_once) = [''./torch_models/autoencoder''] \<and>
   pretrain_cell (hold zero_init) keep_all two_epochs 2 zero_setup = Inr zero_pretrained \<and>
   losses zero_pretrained = Some [Fin 1, Fin 1] \<and>
   mean_loss zero_pretrained = Fin 1 \<and>
   best_loss zero_pretrained = Fin 0 \<and>
   saved_paths (trace zero_pretrained) = [''./torch_models/autoencoder'']"
proof -
  have "\<not> isl (pretrain_cell (hold zero_init) keep_all two_epochs 1 zero_setup)" by code_simp
  then have once: "pretrain_cell (hold zero_init) keep_all two_epochs 1 zero_setup
      = Inr zero_pretrained_once"
    unfolding zero_pretrained_once_def by simp
  have a: "losses zero_pretrained_once = Some [Fin 4, Fin 0]" by code_simp
  have b: "mean_loss zero_pretrained_once = Fin 2" by code_simp
  have c: "best_loss zero_pretrained_once = Fin 0" by code_simp
  have d: "saved_paths (trace zero_pretrained_once) = [''./torch_models/autoencoder'']"
    by code_simp
  have e: "losses zero_pretrained = Some [Fin 1, Fin 1]" by code_simp
  have f: "mean_loss zero_pretrained = Fin 1" by code_simp
  have g: "best_loss zero_pretrained = Fin 0" by code_simp
  have h: "saved_paths (trace zero_pretrained) = [''./torch_models/autoencoder'']"
    by code_simp
  show ?thesis using once a b c d zero_pretrained_run e f g h by simp
qed

subsection \<open>Fine-tuning: what the mean loss averages\<close>

text \<open>
  C2 (the code at a failing input). Pre-training leaves the losses 1 and 1 of its last epoch
  in \<open>losses\<close>. Each fine-tuning epoch has one batch, of loss 9. The mean reported after
  the first fine-tuning epoch is that of 1, 1, 9 (3.66667) and after the second that of
  1, 1, 9, 9 (5), not 9.
\<close>

theorem finetune_mean_includes_earlier_losses:
  "losses zero_pretrained = Some [Fin 1, Fin 1] \<and>
   finetune_cell (hold zero_init) () keep_all one_batch 1 zero_pretrained
     = Inr zero_finetuned_once \<and>
   losses zero_finetuned_once = Some [Fin 1, Fin 1, Fin 9] \<and>
   mean_loss zero_finetuned_once = Fin (366667 / 100000) \<and>
   finetune_cell (hold zero_init) () keep_all one_batch 2 zero_pretrained = Inr zero_finetuned \<and>
   losses zero_finetuned = Some [Fin 1, Fin 1, Fin 9, Fin 9] \<and>
   mean_loss zero_finetuned = Fin 5"
proof -
  have "\<not> isl (finetune_cell (hold zero_init) () keep_all one_batch 1 zero_pretrained)"
    by code_simp
  then have once: "finetune_cell (hold zero_init) () keep_all one_batch 1 zero_pretrained
      = Inr zero_finetuned_once"
    unfolding zero_finetuned_once_def by simp
  have a: "losses zero_pretrained = Some [Fin 1, Fin 1]" by code_simp
  have b: "losses zero_finetuned_once = Some [Fin 1, Fin 1, Fin 9]" by code_simp
  have c: "mean_loss zero_finetuned_once = Fin (366667 / 100000)" by code_simp
  have d: "losses zero_finetuned = Some [Fin 1, Fin 1, Fin 9, Fin 9]" by code_simp
  have e: "mean_loss zero_finetuned = Fin 5" by code_simp
  show ?thesis using a once b c zero_finetuned_run d e by simp
qed

subsection \<open>Evaluation of the pre-trained model\<close>

text \<open>
  C5 (the code at a failing input). The checkpoint written by pre-training holds a model in
  training mode, and the evaluation cell applies the loaded model as it is. On the same stored
  parameters and the same record, the embedding is 5/4 when the random source keeps every
  entry and 0 when it drops every entry: the forward pass of the evaluation runs with both
  dropout modules in training mode.
\<close>

theorem pretrained_embedding_uses_dropout:
  "pretrain_cell (hold unit_init) keep_all one_batch 1 unit_setup = Inr unit_pretrained \<and>
   map_option (map_sum id model_mode) (files unit_pretrained ''./torch_models/autoencoder'')
     = Some (Inr (True, True)) \<and>
   map_sum id snd (eval_pretrained_cell keep_all [[1]] unit_pretrained) = Inr [[5 / 4]] \<and>
   map_sum id snd (eval_pretrained_cell drop_all [[1]] unit_pretrained) = Inr [[0]] \<and>
   map_sum id (forward_modes \<circ> trace \<circ> fst) (eval_pretrained_cell keep_all [[1]] unit_pretrained)
     = Inr [(True, True), (True, True)]"
proof -
  have "\<not> isl (pretrain_cell (hold unit_init) keep_all one_batch 1 unit_setup)" by code_simp
  then have run: "pretrain_cell (hold unit_init) keep_all one_batch 1 unit_setup
      = Inr unit_pretrained"
    unfolding unit_pretrained_def by simp
  have a: "map_option (map_sum id model_mode)
      (files unit_pretrained ''./torch_models/autoencoder'') = Some (Inr (True, True))"
    by code_simp
  have b: "map_sum id snd (eval_pretrained_cell keep_all [[1]] unit_pretrained) = Inr [[5 / 4]]"
    by code_simp
  have c: "map_sum id snd (eval_pretrained_cell drop_all [[1]] unit_pretrained) = Inr [[0]]"
    by code_simp
  have d: "map_sum id (forward_modes \<circ> trace \<circ> fst)
      (eval_pretrained_cell keep_all [[1]] unit_pretrained) = Inr [(True, True), (True, True)]"
    by code_simp
  show ?thesis using run a b c d by simp
qed

subsection \<open>Fine-tuning runs in evaluation mode, pre-training in training mode\<close>

lemma unit_setup_run:
  "setup_cell unit_init () 1 [1, 1, 1] (1 / 5) no_files = Inr unit_setup"
proof -
  have "\<not> isl (setup_cell unit_init () 1 [1, 1, 1] (1 / 5) no_files)" by code_simp
  then show ?thesis unfolding unit_setup_def by simp
qed

lemma unit_pretrained_run:
  "pretrain_cell (hold unit_init) keep_all one_batch 1 unit_setup = Inr unit_pretrained"
proof -
  have "\<not> isl (pretrain_cell (hold unit_init) keep_all one_batch 1 unit_setup)" by code_simp
  then show ?thesis unfolding unit_pretrained_def by simp
qed

lemma unit_finetuned_run:
  "finetune_cell (hold unit_init) () keep_all one_batch 2 unit_pretrained = Inr unit_finetuned"
proof -
  have "\<not> isl (finetune_cell (hold unit_init) () keep_all one_batch 2 unit_pretrained)"
    by code_simp
  then show ?thesis unfolding unit_finetuned_def by simp
qed

text \<open>
  C10. Whenever the fine-tuning cell runs to its end, each of its forward passes (one per
  batch) ran with the dropout modules of the Encoder and of the Decoder in evaluation mode,
  the model is still in evaluation mode afterwards and no random sample was drawn: the cursor
  of the random source has not moved. Whenever the set-up cell and then the pre-training cell
  run to their end, each forward pass of pre-training ran with both dropout modules in
  training mode, and dropout drew one random sample for every entry that entered a dropout
  module: the cursor stands at the number of records processed times the sum of the widths.
  What a dropout module does in either mode: in training mode each entry is zeroed or scaled
  by \<open>1 / (1 - p)\<close> as the sample drawn for it decides, and one sample per entry is used; in
  evaluation mode the input is returned as it is and no sample is used.
\<close>

theorem finetune_in_eval_mode_pretrain_in_train_mode:
  "(finetune_cell opt o0 r dataloader n_epochs s = Inr s' \<longrightarrow>
      forward_modes (new_events s s') = replicate (n_batches dataloader n_epochs) (False, False) \<and>
      model_mode (model s') = (False, False) \<and>
      cursor s' = cursor s) \<and>
   (setup_cell g o0 n_input_features hidden_layers dropout_rate fs = Inr s0 \<and>
    pretrain_cell opt r dataloader n_epochs s0 = Inr s1 \<longrightarrow>
      forward_modes (trace s1) = replicate (n_batches dataloader n_epochs) (True, True) \<and>
      model_mode (model s1) = (True, True) \<and>
      cursor s1 = n_records dataloader n_epochs * draws_per_record hidden_layers) \<and>
   (training d \<longrightarrow>
      Dropout_forward d r (x, k) =
        (map (\<lambda>j. if r (k + j) < 1 - p d then x ! j / (1 - p d) else 0) [0..<length x],
         k + length x)) \<and>
   (\<not> training d \<longrightarrow> Dropout_forward d r (x, k) = (x, k))"
proof (intro conjI impI)
  assume run: "finetune_cell opt o0 r dataloader n_epochs s = Inr s'"
  note e = finetune_cell_effect [OF run]
  show "forward_modes (new_events s s') = replicate (n_batches dataloader n_epochs) (False, False)"
    by (rule e(1))
  show "model_mode (model s') = (False, False)" by (rule e(7))
  show "cursor s' = cursor s" by (rule e(8))
next
  assume a: "setup_cell g o0 n_input_features hidden_layers dropout_rate fs = Inr s0 \<and>
    pretrain_cell opt r dataloader n_epochs s0 = Inr s1"
  have su: "trace s0 = []" "model_mode (model s0) = (True, True)"
    using setup_cell_state(1) [OF conjunct1 [OF a]] setup_cell_state(2) [OF conjunct1 [OF a]]
    by simp_all
  note bu = setup_cell_built [OF conjunct1 [OF a]]
  note pm = pretrain_cell_modes [OF conjunct2 [OF a]]
  have "new_events s0 s1 = trace s1" using su(1) by (simp add: new_events_def)
  then show "forward_modes (trace s1) = replicate (n_batches dataloader n_epochs) (True, True)"
    using pm(1) su(2) by simp
  show "model_mode (model s1) = (True, True)" using pm(2) su(2) by simp
  show "cursor s1 = n_records dataloader n_epochs * draws_per_record hidden_layers"
    using pretrain_cell_draws [OF conjunct2 [OF a] bu(1)] bu(2) by simp
next
  assume "training d"
  then show "Dropout_forward d r (x, k) =
        (map (\<lambda>j. if r (k + j) < 1 - p d then x ! j / (1 - p d) else 0) [0..<length x],
         k + length x)"
    by (simp add: Dropout_forward_def)
next
  assume "\<not> training d"
  then show "Dropout_forward d r (x, k) = (x, k)" by (simp add: Dropout_forward_def)
qed

text \<open>
  The theorem on a model with the widths \<open>[1, 1, 1]\<close> and the dropout rate 0.2, every
  weight 1. In pre-training the random source decides the loss (a source that keeps every
  entry gives another loss than one that drops every entry) and three samples are drawn for
  the one record; in fine-tuning both sources give the same loss and the cursor stays.
\<close>

theorem finetune_in_eval_mode_pretrain_in_train_mode_witness:
  "setup_cell unit_init () 1 [1, 1, 1] (1 / 5) no_files = Inr unit_setup \<and>
   pretrain_cell (hold unit_init) keep_all one_batch 1 unit_setup = Inr unit_pretrained \<and>
   forward_modes (trace unit_pretrained) = [(True, True)] \<and>
   model_mode (model unit_pretrained) = (True, True) \<and>
   cursor unit_pretrained = 3 \<and>
   loss unit_pretrained = Some (Fin (33489 / 4096)) \<and>
   loss unit_pretrained_dropped = Some (Fin 9) \<and>
   finetune_cell (hold unit_init) () keep_all one_batch 2 unit_pretrained = Inr unit_finetuned \<and>
   forward_modes (new_events unit_pretrained unit_finetuned) = [(False, False), (False, False)] \<and>
   model_mode (model unit_finetuned) = (False, False) \<and>
   cursor unit_finetuned = cursor unit_pretrained \<and>
   loss unit_finetuned = Some (Fin 0) \<and>
   loss unit_finetuned_dropped = Some (Fin 0) \<and>
   Dropout_forward \<lparr>p = 1 / 5, training = True\<rparr> drop_all ([3, 4], 0) = ([0, 0], 2) \<and>
   Dropout_forward \<lparr>p = 1 / 5, training = True\<rparr> keep_all ([3, 4], 0) = ([15 / 4, 5], 2) \<and>
   Dropout_forward \<lparr>p = 1 / 5, training = False\<rparr> drop_all ([3, 4], 0) = ([3, 4], 0)"
proof -
  have nb: "n_batches one_batch 2 = 2" "n_batches one_batch (Suc 0) = Suc 0"
      "n_records one_batch (Suc 0) = Suc 0" "draws_per_record [1, 1, 1] = 3"
    by code_simp+
  have reps: "replicate 2 y = [y, y]" "replicate 1 y = [y]" for y :: 'a
    by (simp_all add: numeral_eq_Suc)
  have ft: "forward_modes (new_events unit_pretrained unit_finetuned)
        = replicate (n_batches one_batch 2) (False, False) \<and>
      model_mode (model unit_finetuned) = (False, False) \<and>
      cursor unit_finetuned = cursor unit_pretrained"
    using finetune_in_eval_mode_pretrain_in_train_mode [where opt = "hold unit_init"
        and ?o0.0 = "()" and r = keep_all and dataloader = one_batch and n_epochs = 2
        and s = unit_pretrained and s' = unit_finetuned]
      unit_finetuned_run
    by blast
  have pt: "forward_modes (trace unit_pretrained) = replicate (n_batches one_batch 1) (True, True) \<and>
      model_mode (model unit_pretrained) = (True, True) \<and>
      cursor unit_pretrained = n_records one_batch 1 * draws_per_record [1, 1, 1]"
    using finetune_in_eval_mode_pretrain_in_train_mode [where opt = "hold unit_init"
        and ?o0.0 = "()" and r = keep_all and dataloader = one_batch and n_epochs = 1
        and g = unit_init and n_input_features = 1 and hidden_layers = "[1, 1, 1]"
        and dropout_rate = "1 / 5" and fs = no_files and ?s0.0 = unit_setup
        and ?s1.0 = unit_pretrained]
      unit_setup_run unit_pretrained_run
    by blast
  have d1: "Dropout_forward \<lparr>p = 1 / 5, training = True\<rparr> drop_all ([3, 4], 0) = ([0, 0], 2)"
    using finetune_in_eval_mode_pretrain_in_train_mode [where d = "\<lparr>p = 1 / 5, training = True\<rparr>"
        and r = drop_all and x = "[3, 4]" and k = 0, THEN conjunct2, THEN conjunct2]
    by (simp add: drop_all_def upt_rec [of 0] numeral_2_eq_2)
  have d2: "Dropout_forward \<lparr>p = 1 / 5, training = True\<rparr> keep_all ([3, 4], 0) = ([15 / 4, 5], 2)"
    using finetune_in_eval_mode_pretrain_in_train_mode [where d = "\<lparr>p = 1 / 5, training = True\<rparr>"
        and r = keep_all and x = "[3, 4]" and k = 0, THEN conjunct2, THEN conjunct2]
    by (simp add: keep_all_def upt_rec [of 0] numeral_2_eq_2)
  have d3: "Dropout_forward \<lparr>p = 1 / 5, training = False\<rparr> drop_all ([3, 4], 0) = ([3, 4], 0)"
    using finetune_in_eval_mode_pretrain_in_train_mode [where d = "\<lparr>p = 1 / 5, training = False\<rparr>"
        and r = drop_all and x = "[3, 4]" and k = 0, THEN conjunct2, THEN conjunct2]
    by simp
  have l1: "loss unit_pretrained = Some (Fin (33489 / 4096))" by code_simp
  have l2: "loss unit_pretrained_dropped = Some (Fin 9)" by code_simp
  have l3: "loss unit_finetuned = Some (Fin 0)" by code_simp
  have l4: "loss unit_finetuned_dropped = Some (Fin 0)" by code_simp
  show ?thesis
    using unit_setup_run unit_pretrained_run unit_finetuned_run ft pt d1 d2 d3 l1 l2 l3 l4
    by (simp add: nb reps)
qed

subsection \<open>Learning rate and checkpoints in the two training phases\<close>

text \<open>
  Fine-tuning. Whenever the fine-tuning cell runs to its end, every optimizer step of every
  epoch used the learning rate 0.1, the scheduler was not stepped and its epoch counter is
  unchanged, and exactly one checkpoint per epoch was written to the fine-tuning path.
  Whenever one fine-tuning epoch runs to its end, whatever the losses and whatever
  \<open>best_loss\<close> holds, the learning rate is unchanged and the last thing the epoch did is
  save the current model.
\<close>

lemma finetune_saves_every_epoch:
  "(finetune_cell opt o0 r dataloader n_epochs s = Inr s' \<longrightarrow>
      step_rates (new_events s s') = replicate (n_batches dataloader n_epochs) (1 / 10) \<and>
      scheduler_steps (new_events s s') = [] \<and>
      lr s' = 1 / 10 \<and> scheduler_last_epoch s' = scheduler_last_epoch s \<and>
      saved_paths (new_events s s') =
        replicate n_epochs ''./torch_models/autoencoder-finetuned'') \<and>
   (finetune_epoch opt r dataloader n_epochs epoch t = Inr t' \<longrightarrow>
      lr t' = lr t \<and>
      saved_paths (new_events t t') = [''./torch_models/autoencoder-finetuned''] \<and>
      last (trace t') = Save ''./torch_models/autoencoder-finetuned'' \<and>
      files t' ''./torch_models/autoencoder-finetuned'' = Some (Inr (model t')))"
proof (intro conjI impI)
  assume run: "finetune_cell opt o0 r dataloader n_epochs s = Inr s'"
  note e = finetune_cell_effect [OF run]
  show "step_rates (new_events s s') = replicate (n_batches dataloader n_epochs) (1 / 10)"
    by (rule e(2))
  show "scheduler_steps (new_events s s') = []" by (rule e(3))
  show "lr s' = 1 / 10" by (rule e(5))
  show "scheduler_last_epoch s' = scheduler_last_epoch s" by (rule e(6))
  show "saved_paths (new_events s s') = replicate n_epochs ''./torch_models/autoencoder-finetuned''"
    by (rule e(4))
next
  assume run: "finetune_epoch opt r dataloader n_epochs epoch t = Inr t'"
  note e = finetune_epoch_effect [OF run]
  obtain new where new: "trace t' = trace t @ new"
      "saved_paths new = [''./torch_models/autoencoder-finetuned'']"
      "last new = Save ''./torch_models/autoencoder-finetuned''"
    using e(1) by blast
  have ne: "new \<noteq> []" using new(2) by (auto simp add: saved_paths_def)
  show "lr t' = lr t" by (rule e(2))
  show "saved_paths (new_events t t') = [''./torch_models/autoencoder-finetuned'']"
    using new by (simp add: new_events_def)
  show "last (trace t') = Save ''./torch_models/autoencoder-finetuned''"
    using new ne by simp
  show "files t' ''./torch_models/autoencoder-finetuned'' = Some (Inr (model t'))" by (rule e(5))
qed

text \<open>
  C8 (the code at a failing input). Pre-training with two batches per epoch: the batch losses
  are 0 and 4 in the first epoch (mean 2) and 9/4 and 9/4 in the second (mean 9/4). The first
  epoch is saved and \<open>best_loss\<close> becomes 4, the loss of its last batch. The second
  epoch's mean 9/4 is worse than the first epoch's mean 2, yet it is below 4: a second
  checkpoint is written, over the better one. The checkpoint of pre-training is not gated on
  an improvement of the epoch mean.
\<close>

theorem pretrain_saves_a_worse_epoch:
  "pretrain_cell (hold zero_init) keep_all worse_epochs 1 zero_setup = Inr worse_pretrained_once \<and>
   losses worse_pretrained_once = Some [Fin 0, Fin 4] \<and>
   mean_loss worse_pretrained_once = Fin 2 \<and>
   best_loss worse_pretrained_once = Fin 4 \<and>
   saved_paths (trace worse_pretrained_once) = [''./torch_models/autoencoder''] \<and>
   pretrain_cell (hold zero_init) keep_all worse_epochs 2 zero_setup = Inr worse_pretrained \<and>
   losses worse_pretrained = Some [Fin (9 / 4), Fin (9 / 4)] \<and>
   mean_loss worse_pretrained = Fin (9 / 4) \<and>
   best_loss worse_pretrained = Fin (9 / 4) \<and>
   saved_paths (trace worse_pretrained) =
     [''./torch_models/autoencoder'', ''./torch_models/autoencoder'']"
proof -
  have "\<not> isl (pretrain_cell (hold zero_init) keep_all worse_epochs 1 zero_setup)" by code_simp
  then have once: "pretrain_cell (hold zero_init) keep_all worse_epochs 1 zero_setup
      = Inr worse_pretrained_once"
    unfolding worse_pretrained_once_def by simp
  have "\<not> isl (pretrain_cell (hold zero_init) keep_all worse_epochs 2 zero_setup)" by code_simp
  then have twice: "pretrain_cell (hold zero_init) keep_all worse_epochs 2 zero_setup
      = Inr worse_pretrained"
    unfolding worse_pretrained_def by simp
  have a: "losses worse_pretrained_once = Some [Fin 0, Fin 4]" by code_simp
  have b: "mean_loss worse_pretrained_once = Fin 2" by code_simp
  have c: "best_loss worse_pretrained_once = Fin 4" by code_simp
  have d: "saved_paths (trace worse_pretrained_once) = [''./torch_models/autoencoder'']"
    by code_simp
  have e: "losses worse_pretrained = Some [Fin (9 / 4), Fin (9 / 4)]" by code_simp
  have f: "mean_loss worse_pretrained = Fin (9 / 4)" by code_simp
  have g: "best_loss worse_pretrained = Fin (9 / 4)" by code_simp
  have h: "saved_paths (trace worse_pretrained) =
     [''./torch_models/autoencoder'', ''./torch_models/autoencoder'']"
    by code_simp
  show ?thesis using once a b c d twice e f g h by simp
qed

subsection \<open>Loading a checkpoint\<close>









end
